theory Spec2Isabelle
  imports Main "HOL-Library.AList"
begin

section \<open>Settings and credential records\<close>

text \<open>
  The settings object of the plugin (\<^verbatim>\<open>NeuralComposerSettingsSchema\<close>), restricted to the
  fields that the credential manager, the request wrapper and the \<^verbatim>\<open>.env\<close> generator read
  or write. A credential record is the zod object
  \<^verbatim>\<open>{refresh: string, access: string, expires: number}.passthrough()\<close>; the passthrough
  fields that the code reads (\<^verbatim>\<open>email\<close>, \<^verbatim>\<open>projectId\<close>, \<^verbatim>\<open>accountId\<close>,
  \<^verbatim>\<open>enterpriseUrl\<close>) are optional. A record without a refresh token has the empty
  string there, which the code tests the same way (\<^verbatim>\<open>!creds?.refresh\<close>). Instants are
  milliseconds (\<^verbatim>\<open>Date.now()\<close>), numbers are integral, strings are lists of characters,
  and a JavaScript object used as a dictionary is an association list in insertion order
  whose keys are distinct. The models and providers of the settings carry the fields that
  the generator reads.
\<close>

record OAuthCredentials =
  refresh :: string
  access :: string
  expires :: int
  email :: "string option"
  projectId :: "string option"
  accountId :: "string option"
  enterpriseUrl :: "string option"

record LLMProvider =
  lp_id :: string
  lp_baseUrl :: "string option"
  lp_apiKey :: "string option"

record ChatModel =
  cm_id :: string
  cm_providerId :: string
  cm_model :: string

record EmbeddingModel =
  em_id :: string
  em_providerId :: string
  em_model :: string
  em_dimension :: "int option"

record NeuralComposerSettings =
  providers :: "LLMProvider list"
  chatModels :: "ChatModel list"
  embeddingModels :: "EmbeddingModel list"
  chatModelId :: string
  embeddingModelId :: string
  enableAutoStartServer :: bool
  lightRagWorkDir :: string
  lightRagModelId :: "string option"
  lightRagSummaryLanguage :: string
  lightRagEmbeddingModelId :: "string option"
  lightRagRerankBinding :: string
  lightRagRerankModel :: string
  lightRagRerankApiKey :: string
  lightRagRerankHost :: string
  lightRagRerankBindingType :: string
  lightRagEntityTypes :: string
  useCustomEntityTypes :: bool
  lightRagCustomEnv :: string
  lightRagMaxAsync :: int
  lightRagMaxParallelInsert :: int
  lightRagChunkSize :: int
  lightRagChunkOverlap :: int
  oauthCredentials :: "(string \<times> OAuthCredentials) list"
  lightRagOAuthProvider :: string

section \<open>Providers, the plugin state and its environment\<close>

text \<open>
  A provider implementation (\<^verbatim>\<open>OAuthProviderInterface\<close>) is reached only through the
  registry. Its \<^verbatim>\<open>refreshToken\<close> is a network call: the result may differ from one call
  to the next, so it takes the number of refresh calls issued before it, and \<open>None\<close>
  stands for a rejected promise. \<^verbatim>\<open>login\<close> is the outcome of the interactive flow.
\<close>

datatype error = UnknownProvider string | LoginFailed string | SaveFailed

record OAuthProviderInterface =
  provider_name :: string
  provider_login :: "string + OAuthCredentials"
  provider_refreshToken :: "nat \<Rightarrow> OAuthCredentials \<Rightarrow> OAuthCredentials option"
  provider_getApiKey :: "OAuthCredentials \<Rightarrow> string"

text \<open>
  What \<^verbatim>\<open>requestUrl\<close> yields for a request to the LightRAG server: the promise rejects
  (the server cannot be reached), or a response with a status and a body arrives
  (\<^verbatim>\<open>throw: false\<close>).
\<close>

datatype http_reply = Unreachable string | Response nat string

text \<open>
  The environment of one operation: the clock reading, the provider registry
  (\<^verbatim>\<open>oauthProviderRegistry\<close>), whether the \<open>n\<close>-th \<^verbatim>\<open>saveData\<close> call succeeds, and
  the reply of the LightRAG server to the \<open>n\<close>-th request, given its headers.
\<close>

record environment =
  now :: int
  oauthProviderRegistry :: "string \<Rightarrow> OAuthProviderInterface option"
  saveData_ok :: "nat \<Rightarrow> bool"
  lightRagServer :: "nat \<Rightarrow> (string \<times> string) list \<Rightarrow> http_reply"

text \<open>
  The state the manager works on: the in-memory settings of the plugin, what \<^verbatim>\<open>saveData\<close>
  last wrote, the number of \<^verbatim>\<open>saveData\<close> calls, the \<^verbatim>\<open>refreshToken\<close> invocations in
  order (provider id and the record handed over), the number of \<^verbatim>\<open>syncToLightRagServer\<close>
  runs, and the notices shown to the user.
\<close>

record plugin =
  settings :: NeuralComposerSettings
  saved :: "NeuralComposerSettings option"
  saveCalls :: nat
  refreshLog :: "(string \<times> OAuthCredentials) list"
  syncs :: nat
  notices :: "string list"

definition getOAuthProvider :: "environment \<Rightarrow> string \<Rightarrow> OAuthProviderInterface option" where
  "getOAuthProvider env ident = oauthProviderRegistry env ident"

definition getCredentials :: "plugin \<Rightarrow> (string \<times> OAuthCredentials) list" where
  "getCredentials p = oauthCredentials (settings p)"

definition setCredentials :: "(string \<times> OAuthCredentials) list \<Rightarrow> plugin \<Rightarrow> plugin" where
  "setCredentials allCreds p = p\<lparr>settings := (settings p)\<lparr>oauthCredentials := allCreds\<rparr>\<rparr>"

text \<open>
  \<^verbatim>\<open>await this.plugin.saveData(this.plugin.settings)\<close>: the current settings are written
  as a whole, or the promise rejects and nothing is written.
\<close>

definition saveData :: "environment \<Rightarrow> plugin \<Rightarrow> plugin \<times> bool" where
  "saveData env p =
     (if saveData_ok env (saveCalls p)
      then (p\<lparr>saved := Some (settings p), saveCalls := Suc (saveCalls p)\<rparr>, True)
      else (p\<lparr>saveCalls := Suc (saveCalls p)\<rparr>, False))"

text \<open>
  \<^verbatim>\<open>syncToLightRagServer\<close> rewrites the \<^verbatim>\<open>.env\<close> file and restarts the server inside a
  \<^verbatim>\<open>try/catch\<close> that swallows every error; it reads the settings and changes neither
  them nor the saved data.
\<close>

definition syncToLightRagServer :: "plugin \<Rightarrow> plugin" where
  "syncToLightRagServer p = p\<lparr>syncs := Suc (syncs p)\<rparr>"

definition Notice :: "string \<Rightarrow> plugin \<Rightarrow> plugin" where
  "Notice msg p = p\<lparr>notices := notices p @ [msg]\<rparr>"

section \<open>The credential manager\<close>

definition saveCredentials ::
  "environment \<Rightarrow> string \<Rightarrow> OAuthCredentials \<Rightarrow> plugin \<Rightarrow> plugin \<times> (error + unit)" where
  "saveCredentials env providerId creds p =
     (let allCreds = AList.update providerId creds (getCredentials p);
          p1 = setCredentials allCreds p
      in case saveData env p1 of
           (p2, False) \<Rightarrow> (p2, Inl SaveFailed)
         | (p2, True) \<Rightarrow>
             (if lightRagOAuthProvider (settings p2) = providerId
              then (syncToLightRagServer p2, Inr ())
              else (p2, Inr ())))"

definition clearCredentials ::
  "environment \<Rightarrow> string \<Rightarrow> plugin \<Rightarrow> plugin \<times> (error + unit)" where
  "clearCredentials env providerId p =
     (let allCreds = AList.delete providerId (getCredentials p);
          p1 = setCredentials allCreds p;
          p2 = (if lightRagOAuthProvider (settings p1) = providerId
                then p1\<lparr>settings := (settings p1)\<lparr>lightRagOAuthProvider := ''''\<rparr>\<rparr>
                else p1)
      in case saveData env p2 of
           (p3, False) \<Rightarrow> (p3, Inl SaveFailed)
         | (p3, True) \<Rightarrow> (syncToLightRagServer p3, Inr ()))"

definition login ::
  "environment \<Rightarrow> string \<Rightarrow> plugin \<Rightarrow> plugin \<times> (error + OAuthCredentials)" where
  "login env providerId p =
     (case getOAuthProvider env providerId of
        None \<Rightarrow> (p, Inl (UnknownProvider providerId))
      | Some provider \<Rightarrow>
          (case provider_login provider of
             Inl msg \<Rightarrow> (p, Inl (LoginFailed msg))
           | Inr credentials \<Rightarrow>
               (case saveCredentials env providerId credentials p of
                  (p1, Inl e) \<Rightarrow> (p1, Inl e)
                | (p1, Inr _) \<Rightarrow> (p1, Inr credentials))))"

definition logout :: "environment \<Rightarrow> string \<Rightarrow> plugin \<Rightarrow> plugin \<times> (error + unit)" where
  "logout env providerId p =
     (case clearCredentials env providerId p of
        (p1, Inl e) \<Rightarrow> (p1, Inl e)
      | (p1, Inr _) \<Rightarrow>
          (Notice (''Logged out from '' @
                   (case getOAuthProvider env providerId of
                      Some provider \<Rightarrow> provider_name provider
                    | None \<Rightarrow> providerId)) p1,
           Inr ()))"

text \<open>
  The \<^verbatim>\<open>catch\<close> block of \<^verbatim>\<open>getApiKey\<close>: the record is cleared, the user is told to log
  in again, and the call yields \<^verbatim>\<open>undefined\<close>. A failing \<^verbatim>\<open>saveData\<close> inside
  \<^verbatim>\<open>clearCredentials\<close> leaves the \<^verbatim>\<open>catch\<close> block as a rejection.
\<close>

definition getApiKey_catch ::
  "environment \<Rightarrow> string \<Rightarrow> OAuthProviderInterface \<Rightarrow> plugin \<Rightarrow> plugin \<times> (error + string option)" where
  "getApiKey_catch env providerId provider p =
     (case clearCredentials env providerId p of
        (p1, Inl e) \<Rightarrow> (p1, Inl e)
      | (p1, Inr _) \<Rightarrow>
          (Notice (''OAuth token expired for '' @ provider_name provider @ ''. Please login again.'') p1,
           Inr None))"

definition callRefreshToken ::
  "OAuthProviderInterface \<Rightarrow> string \<Rightarrow> OAuthCredentials \<Rightarrow> plugin \<Rightarrow> plugin \<times> OAuthCredentials option" where
  "callRefreshToken provider providerId creds p =
     (p\<lparr>refreshLog := refreshLog p @ [(providerId, creds)]\<rparr>,
      provider_refreshToken provider (length (refreshLog p)) creds)"

definition getApiKey ::
  "environment \<Rightarrow> string \<Rightarrow> plugin \<Rightarrow> plugin \<times> (error + string option)" where
  "getApiKey env providerId p =
     (case getOAuthProvider env providerId of
        None \<Rightarrow> (p, Inr None)
      | Some provider \<Rightarrow>
          (case map_of (getCredentials p) providerId of
             None \<Rightarrow> (p, Inr None)
           | Some creds \<Rightarrow>
               (if now env \<ge> expires creds then
                  (case callRefreshToken provider providerId creds p of
                     (p1, None) \<Rightarrow> getApiKey_catch env providerId provider p1
                   | (p1, Some creds') \<Rightarrow>
                       (case saveCredentials env providerId creds' p1 of
                          (p2, Inl e) \<Rightarrow> getApiKey_catch env providerId provider p2
                        | (p2, Inr _) \<Rightarrow> (p2, Inr (Some (provider_getApiKey provider creds')))))
                else (p, Inr (Some (provider_getApiKey provider creds))))))"

definition getActiveLightRagApiKey ::
  "environment \<Rightarrow> plugin \<Rightarrow> plugin \<times> (error + (string \<times> string) option)" where
  "getActiveLightRagApiKey env p =
     (let providerId = lightRagOAuthProvider (settings p)
      in if providerId = '''' then (p, Inr None)
         else (case getApiKey env providerId p of
                 (p1, Inl e) \<Rightarrow> (p1, Inl e)
               | (p1, Inr None) \<Rightarrow> (p1, Inr None)
               | (p1, Inr (Some apiKey)) \<Rightarrow>
                   (if apiKey = '''' then (p1, Inr None) else (p1, Inr (Some (providerId, apiKey))))))"

definition forceRefreshActiveToken ::
  "environment \<Rightarrow> plugin \<Rightarrow> plugin \<times> (error + (string \<times> string) option)" where
  "forceRefreshActiveToken env p =
     (let providerId = lightRagOAuthProvider (settings p)
      in if providerId = '''' then (p, Inr None)
         else (case getOAuthProvider env providerId of
                 None \<Rightarrow> (p, Inr None)
               | Some provider \<Rightarrow>
                   (case map_of (getCredentials p) providerId of
                      None \<Rightarrow> (p, Inr None)
                    | Some creds \<Rightarrow>
                        (if refresh creds = '''' then (p, Inr None)
                         else
                           (let catch = (\<lambda>q. case clearCredentials env providerId q of
                                           (q1, Inl e) \<Rightarrow> (q1, Inl e)
                                         | (q1, Inr _) \<Rightarrow>
                                             (Notice (''OAuth token invalid for '' @ provider_name provider
                                                      @ ''. Please login again.'') q1,
                                              Inr None))
                            in case callRefreshToken provider providerId creds p of
                                 (p1, None) \<Rightarrow> catch p1
                               | (p1, Some newCreds) \<Rightarrow>
                                   (case saveCredentials env providerId newCreds p1 of
                                      (p2, Inl e) \<Rightarrow> catch p2
                                    | (p2, Inr _) \<Rightarrow>
                                        (p2, Inr (Some (providerId, provider_getApiKey provider newCreds)))))))))"

text \<open>
  One iteration of the loop of \<^verbatim>\<open>refreshAllIfNeeded\<close> over an entry of the snapshot taken
  at the start of the sweep. Both a rejected \<^verbatim>\<open>refreshToken\<close> and a rejected
  \<^verbatim>\<open>saveData\<close> end in the \<^verbatim>\<open>catch\<close> block, which only logs.
\<close>

definition refreshEntry ::
  "environment \<Rightarrow> int \<Rightarrow> string \<times> OAuthCredentials \<Rightarrow> plugin \<Rightarrow> plugin" where
  "refreshEntry env refreshThreshold entry p =
     (case entry of (providerId, providerCreds) \<Rightarrow>
        if access providerCreds = '''' then p
        else if expires providerCreds > refreshThreshold then p
        else (case getOAuthProvider env providerId of
                None \<Rightarrow> p
              | Some provider \<Rightarrow>
                  (case callRefreshToken provider providerId providerCreds p of
                     (p1, None) \<Rightarrow> p1
                   | (p1, Some newCreds) \<Rightarrow> fst (saveCredentials env providerId newCreds p1))))"

fun refreshEntries ::
  "environment \<Rightarrow> int \<Rightarrow> (string \<times> OAuthCredentials) list \<Rightarrow> plugin \<Rightarrow> plugin" where
  "refreshEntries env refreshThreshold [] p = p"
| "refreshEntries env refreshThreshold (entry # rest) p =
     refreshEntries env refreshThreshold rest (refreshEntry env refreshThreshold entry p)"

definition refreshAllIfNeeded :: "environment \<Rightarrow> plugin \<Rightarrow> plugin" where
  "refreshAllIfNeeded env p =
     (let creds = getCredentials p;
          refreshThreshold = now env + 10 * 60 * 1000
      in refreshEntries env refreshThreshold creds p)"

section \<open>Strings\<close>

text \<open>
  The JavaScript string operations the code uses, on ASCII: \<^verbatim>\<open>toLowerCase\<close>,
  \<^verbatim>\<open>toUpperCase\<close>, \<^verbatim>\<open>includes\<close> (\<open>str_includes\<close>), and the rendering of an
  integral number inside a template literal.
\<close>

definition lower_char :: "char \<Rightarrow> char" where
  "lower_char c =
     (case map_of (zip ''ABCDEFGHIJKLMNOPQRSTUVWXYZ'' ''abcdefghijklmnopqrstuvwxyz'') c of
        Some d \<Rightarrow> d | None \<Rightarrow> c)"

definition upper_char :: "char \<Rightarrow> char" where
  "upper_char c =
     (case map_of (zip ''abcdefghijklmnopqrstuvwxyz'' ''ABCDEFGHIJKLMNOPQRSTUVWXYZ'') c of
        Some d \<Rightarrow> d | None \<Rightarrow> c)"

definition toLowerCase :: "string \<Rightarrow> string" where
  "toLowerCase s = map lower_char s"

definition toUpperCase :: "string \<Rightarrow> string" where
  "toUpperCase s = map upper_char s"

fun startsWith :: "string \<Rightarrow> string \<Rightarrow> bool" where
  "startsWith s [] = True"
| "startsWith [] (c # cs) = False"
| "startsWith (d # ds) (c # cs) = (d = c \<and> startsWith ds cs)"

fun str_includes :: "string \<Rightarrow> string \<Rightarrow> bool" where
  "str_includes [] t = (t = [])"
| "str_includes (c # cs) t = (startsWith (c # cs) t \<or> str_includes cs t)"

definition digit :: "nat \<Rightarrow> char" where
  "digit n = ''0123456789'' ! (n mod 10)"

function show_nat :: "nat \<Rightarrow> string" where
  "show_nat n = (if n < 10 then [digit n] else show_nat (n div 10) @ [digit n])"
  by pat_completeness auto
termination
  by (relation "measure id") auto

definition show_int :: "int \<Rightarrow> string" where
  "show_int i = (if i < 0 then CHR ''-'' # show_nat (nat (- i)) else show_nat (nat i))"

section \<open>The authenticated request wrapper\<close>

text \<open>
  \<^verbatim>\<open>RAGEngine\<close> holds two optional callbacks into the credential manager. The state of a
  query is the plugin state the callbacks work on, the headers of every request sent so far
  (oldest first), the number of \<^verbatim>\<open>oauthForceRefresh\<close> and \<^verbatim>\<open>restartServerCallback\<close>
  invocations, and the notices raised by the engine. An error thrown by
  \<^verbatim>\<open>performQuery\<close> carries a \<^verbatim>\<open>statusCode\<close> only for 401 and 403. The parsed body
  \<^verbatim>\<open>response.json\<close> of a response below 400 is kept as the body text. The engine reads
  \<^verbatim>\<open>enableAutoStartServer\<close> from the settings object it shares with the plugin, and
  \<^verbatim>\<open>restartServerCallback\<close> (the plugin's \<^verbatim>\<open>restartLightRagServer\<close>) is counted.
  Only the global strategy of \<^verbatim>\<open>processQuery\<close> is modelled: the query has no file scope,
  so the request goes to the server.
\<close>

datatype query_error = QueryError (statusCode: "nat option") (message: string)

record RAGEngine =
  oauthTokenResolver :: "(plugin \<Rightarrow> plugin \<times> (error + (string \<times> string) option)) option"
  oauthForceRefresh :: "(plugin \<Rightarrow> plugin \<times> (error + (string \<times> string) option)) option"

record rag_state =
  host :: plugin
  requests :: "(string \<times> string) list list"
  forceRefreshCalls :: nat
  serverRestarts :: nat
  rag_notices :: "string list"

definition rag_Notice :: "string \<Rightarrow> rag_state \<Rightarrow> rag_state" where
  "rag_Notice msg w = w\<lparr>rag_notices := rag_notices w @ [msg]\<rparr>"

definition getRequestHeaders :: "RAGEngine \<Rightarrow> rag_state \<Rightarrow> rag_state \<times> (string \<times> string) list" where
  "getRequestHeaders eng w =
     (let headers = [(''Content-Type'', ''application/json'')]
      in case oauthTokenResolver eng of
           None \<Rightarrow> (w, headers)
         | Some resolver \<Rightarrow>
             (case resolver (host w) of
                (h1, Inr (Some (providerId, apiKey))) \<Rightarrow>
                  (w\<lparr>host := h1\<rparr>,
                   headers @ [(''X-OAuth-Provider'', providerId), (''X-OAuth-Token'', apiKey)])
              | (h1, Inr None) \<Rightarrow> (w\<lparr>host := h1\<rparr>, headers)
              | (h1, Inl e) \<Rightarrow> (w\<lparr>host := h1\<rparr>, headers)))"

definition statusMessage :: "nat \<Rightarrow> string \<Rightarrow> string" where
  "statusMessage status errorText = ''Status '' @ show_nat status @ '': '' @ errorText"

definition performQuery ::
  "environment \<Rightarrow> RAGEngine \<Rightarrow> (string \<times> string) list option \<Rightarrow> rag_state
     \<Rightarrow> rag_state \<times> (query_error + string)" where
  "performQuery env eng overrideHeaders w =
     (case (case overrideHeaders of Some h \<Rightarrow> (w, h) | None \<Rightarrow> getRequestHeaders eng w) of
        (w1, headers) \<Rightarrow>
          (let w2 = w1\<lparr>requests := requests w1 @ [headers]\<rparr>
           in case lightRagServer env (length (requests w1)) headers of
                Unreachable msg \<Rightarrow> (w2, Inl (QueryError None msg))
              | Response status errorText \<Rightarrow>
                  (if status \<ge> 400 then
                     (if status = 401 \<or> status = 403
                      then (w2, Inl (QueryError (Some status) (statusMessage status errorText)))
                      else
                        (let lower = toLowerCase errorText;
                             w3 = (if str_includes lower ''quota'' \<or> str_includes lower ''credit''
                                      \<or> str_includes lower ''429''
                                   then rag_Notice ''Rerank error: quota exceeded. Please check your API key.'' w2
                                   else if str_includes lower ''rerank''
                                   then rag_Notice (''Reranking error: '' @ errorText) w2
                                   else w2)
                         in (w3, Inl (QueryError None (statusMessage status errorText)))))
                   else (w2, Inr errorText))))"

definition refreshedHeaders :: "string \<times> string \<Rightarrow> (string \<times> string) list" where
  "refreshedHeaders freshToken =
     [(''Content-Type'', ''application/json''),
      (''X-OAuth-Provider'', fst freshToken),
      (''X-OAuth-Token'', snd freshToken)]"

text \<open>
  The inner \<^verbatim>\<open>try/catch\<close> of the global strategy of \<^verbatim>\<open>processQuery\<close>, which obtains
  \<^verbatim>\<open>data\<close> or throws. Whatever is thrown inside the refresh block (a rejected
  \<^verbatim>\<open>oauthForceRefresh\<close>, the rethrown first error, a failed retry) reaches its
  \<^verbatim>\<open>catch (refreshError)\<close>, which throws the first error. (The arrow in its notice is
  given by its three UTF-8 bytes.)
\<close>

definition refreshFailed :: "query_error \<Rightarrow> rag_state \<Rightarrow> rag_state \<times> (query_error + string)" where
  "refreshFailed firstError w =
     (rag_Notice (''OAuth token refresh failed. Please re-login via Settings ''
                 @ [CHR 0xE2, CHR 0x86, CHR 0x92] @ '' OAuth.'') w,
      Inl firstError)"

definition processQuery_data ::
  "environment \<Rightarrow> RAGEngine \<Rightarrow> rag_state \<Rightarrow> rag_state \<times> (query_error + string)" where
  "processQuery_data env eng w =
     (case performQuery env eng None w of
        (w1, Inr data) \<Rightarrow> (w1, Inr data)
      | (w1, Inl firstError) \<Rightarrow>
          (if (statusCode firstError = Some 401 \<or> statusCode firstError = Some 403)
              \<and> oauthForceRefresh eng \<noteq> None
           then
             (case the (oauthForceRefresh eng) (host w1) of
                (h2, r) \<Rightarrow>
                  (let w2 = w1\<lparr>host := h2, forceRefreshCalls := Suc (forceRefreshCalls w1)\<rparr>
                   in case r of
                        Inl e \<Rightarrow> refreshFailed firstError w2
                      | Inr None \<Rightarrow>
                          refreshFailed firstError
                            (rag_Notice ''OAuth session expired. Please re-login via the OAuth command.'' w2)
                      | Inr (Some freshToken) \<Rightarrow>
                          (case performQuery env eng (Some (refreshedHeaders freshToken)) w2 of
                             (w3, Inr data) \<Rightarrow> (w3, Inr data)
                           | (w3, Inl e) \<Rightarrow> refreshFailed firstError w3)))
           else if enableAutoStartServer (settings (host w1))
           then performQuery env eng None
                  ((rag_Notice ''Waking up the system...'' w1)
                     \<lparr>serverRestarts := Suc (serverRestarts w1)\<rparr>)
           else (w1, Inl firstError)))"

datatype RagQueryResult = ErrorDoc string | GraphResults string

text \<open>
  The outer \<^verbatim>\<open>catch\<close> turns the error that reaches it into the error document that the
  caller receives; a successful query yields the results built from \<^verbatim>\<open>data\<close>.
\<close>

definition errorDoc :: "query_error \<Rightarrow> RagQueryResult" where
  "errorDoc err =
     ErrorDoc (''No response could be obtained from graph.'' @ [CHR 0x0A, CHR 0x0A]
               @ ''Possible cause: '' @ message err @ [CHR 0x0A, CHR 0x0A]
               @ ''If you use reranking, check your credits.'')"

definition processQuery :: "environment \<Rightarrow> RAGEngine \<Rightarrow> rag_state \<Rightarrow> rag_state \<times> RagQueryResult" where
  "processQuery env eng w =
     (case processQuery_data env eng w of
        (w1, Inr data) \<Rightarrow> (w1, GraphResults data)
      | (w1, Inl err) \<Rightarrow> (w1, errorDoc err))"

text \<open>
  The engine as \<^verbatim>\<open>getRAGEngine\<close> in \<^verbatim>\<open>main.ts\<close> constructs it, the only place where the
  plugin does: both callbacks are bound to the credential manager.
\<close>

definition getRAGEngine :: "environment \<Rightarrow> RAGEngine" where
  "getRAGEngine env =
     \<lparr>oauthTokenResolver = Some (getActiveLightRagApiKey env),
      oauthForceRefresh = Some (forceRefreshActiveToken env)\<rparr>"

section \<open>Concurrent calls of \<^verbatim>\<open>getApiKey\<close>\<close>

text \<open>
  An \<^verbatim>\<open>async\<close> function runs without interruption up to its next \<^verbatim>\<open>await\<close>; other
  callers run only while it is suspended there. A call of \<^verbatim>\<open>getApiKey\<close> is therefore a
  task that is suspended at the \<^verbatim>\<open>await\<close> of \<^verbatim>\<open>refreshToken\<close>, at the \<^verbatim>\<open>await\<close> of
  \<^verbatim>\<open>saveData\<close> inside \<^verbatim>\<open>saveCredentials\<close> or inside \<^verbatim>\<open>clearCredentials\<close>, or has
  returned. A suspended task holds the outcome that the pending promise will deliver.
  \<open>getApiKey_call\<close> is the part that runs when the function is called (up to the first
  \<^verbatim>\<open>await\<close>: the provider and the record are looked up, the expiry is tested and
  \<^verbatim>\<open>refreshToken\<close> is invoked); \<open>getApiKey_resume\<close> runs a suspended task up to its
  next \<^verbatim>\<open>await\<close> or its return, on the state it finds then.
\<close>

datatype getApiKey_task =
    AwaitRefresh string OAuthProviderInterface "OAuthCredentials option"
  | AwaitSave string OAuthProviderInterface OAuthCredentials bool
  | AwaitClear string OAuthProviderInterface bool
  | Returned "error + string option"

definition getApiKey_call :: "environment \<Rightarrow> string \<Rightarrow> plugin \<Rightarrow> plugin \<times> getApiKey_task" where
  "getApiKey_call env providerId p =
     (case getOAuthProvider env providerId of
        None \<Rightarrow> (p, Returned (Inr None))
      | Some provider \<Rightarrow>
          (case map_of (getCredentials p) providerId of
             None \<Rightarrow> (p, Returned (Inr None))
           | Some creds \<Rightarrow>
               (if now env \<ge> expires creds then
                  (case callRefreshToken provider providerId creds p of
                     (p1, r) \<Rightarrow> (p1, AwaitRefresh providerId provider r))
                else (p, Returned (Inr (Some (provider_getApiKey provider creds)))))))"

definition clearCredentials_begin ::
  "environment \<Rightarrow> string \<Rightarrow> OAuthProviderInterface \<Rightarrow> plugin \<Rightarrow> plugin \<times> getApiKey_task" where
  "clearCredentials_begin env providerId provider p =
     (let allCreds = AList.delete providerId (getCredentials p);
          p1 = setCredentials allCreds p;
          p2 = (if lightRagOAuthProvider (settings p1) = providerId
                then p1\<lparr>settings := (settings p1)\<lparr>lightRagOAuthProvider := ''''\<rparr>\<rparr>
                else p1)
      in case saveData env p2 of (p3, ok) \<Rightarrow> (p3, AwaitClear providerId provider ok))"

fun getApiKey_resume :: "environment \<Rightarrow> plugin \<Rightarrow> getApiKey_task \<Rightarrow> plugin \<times> getApiKey_task" where
  "getApiKey_resume env p (AwaitRefresh providerId provider None) =
     clearCredentials_begin env providerId provider p"
| "getApiKey_resume env p (AwaitRefresh providerId provider (Some creds)) =
     (let allCreds = AList.update providerId creds (getCredentials p);
          p1 = setCredentials allCreds p
      in case saveData env p1 of (p2, ok) \<Rightarrow> (p2, AwaitSave providerId provider creds ok))"
| "getApiKey_resume env p (AwaitSave providerId provider creds False) =
     clearCredentials_begin env providerId provider p"
| "getApiKey_resume env p (AwaitSave providerId provider creds True) =
     ((if lightRagOAuthProvider (settings p) = providerId then syncToLightRagServer p else p),
      Returned (Inr (Some (provider_getApiKey provider creds))))"
| "getApiKey_resume env p (AwaitClear providerId provider False) = (p, Returned (Inl SaveFailed))"
| "getApiKey_resume env p (AwaitClear providerId provider True) =
     (Notice (''OAuth token expired for '' @ provider_name provider @ ''. Please login again.'')
        (syncToLightRagServer p),
      Returned (Inr None))"
| "getApiKey_resume env p (Returned r) = (p, Returned r)"

text \<open>
  Several callers: \<open>call_all\<close> invokes \<^verbatim>\<open>getApiKey\<close> once per listed provider id, one
  call after the other with nothing in between (as \<^verbatim>\<open>Promise.all\<close> over the calls does, or
  any callers that arrive before the first response); a schedule then names, step by step,
  the task that is resumed next.
\<close>

fun call_all :: "environment \<Rightarrow> string list \<Rightarrow> plugin \<Rightarrow> plugin \<times> getApiKey_task list" where
  "call_all env [] p = (p, [])"
| "call_all env (providerId # rest) p =
     (case getApiKey_call env providerId p of
        (p1, t) \<Rightarrow> (case call_all env rest p1 of (p2, ts) \<Rightarrow> (p2, t # ts)))"

definition resume_at ::
  "environment \<Rightarrow> nat \<Rightarrow> plugin \<times> getApiKey_task list \<Rightarrow> plugin \<times> getApiKey_task list" where
  "resume_at env i st =
     (case st of (p, ts) \<Rightarrow>
        if i < length ts
        then (case getApiKey_resume env p (ts ! i) of (p1, t) \<Rightarrow> (p1, ts[i := t]))
        else (p, ts))"

fun run_schedule ::
  "environment \<Rightarrow> nat list \<Rightarrow> plugin \<times> getApiKey_task list \<Rightarrow> plugin \<times> getApiKey_task list" where
  "run_schedule env [] st = st"
| "run_schedule env (i # sched) st = run_schedule env sched (resume_at env i st)"

definition getApiKey_concurrent ::
  "environment \<Rightarrow> string list \<Rightarrow> nat list \<Rightarrow> plugin \<Rightarrow> plugin \<times> getApiKey_task list" where
  "getApiKey_concurrent env providerIds sched p = run_schedule env sched (call_all env providerIds p)"

text \<open>
  Callers may also arrive while earlier calls are suspended: a step either calls
  \<^verbatim>\<open>getApiKey\<close> for a provider id (a new task, run up to its first \<^verbatim>\<open>await\<close> or its
  return) or resumes the task with the given number.
\<close>

datatype caller_step = Call string | Resume nat

fun run_steps ::
  "environment \<Rightarrow> caller_step list \<Rightarrow> plugin \<times> getApiKey_task list \<Rightarrow> plugin \<times> getApiKey_task list" where
  "run_steps env [] st = st"
| "run_steps env (Call providerId # rest) st =
     (case st of (p, ts) \<Rightarrow>
        (case getApiKey_call env providerId p of (p1, t) \<Rightarrow> run_steps env rest (p1, ts @ [t])))"
| "run_steps env (Resume i # rest) st = run_steps env rest (resume_at env i st)"

section \<open>Strategy A: the generated \<^verbatim>\<open>.env\<close> text\<close>

text \<open>
  \<^verbatim>\<open>generateEnvConfig\<close> builds the text from \<^verbatim>\<open>this.settings\<close> alone. \<open>truthy\<close> is the
  JavaScript test of an optional string in a condition, \<open>orElse\<close> is \<^verbatim>\<open>a || b\<close> on
  strings. Numbers are integral. Given settings of the schema's types nothing in the
  \<^verbatim>\<open>try\<close> block throws, so its \<^verbatim>\<open>catch\<close> (which returns the empty text) is not reached.
\<close>

definition nl :: string where
  "nl = [CHR 0x0A]"

definition truthy :: "string option \<Rightarrow> bool" where
  "truthy v = (case v of None \<Rightarrow> False | Some t \<Rightarrow> t \<noteq> '''')"

definition orElse :: "string option \<Rightarrow> string \<Rightarrow> string" where
  "orElse v d = (case v of None \<Rightarrow> d | Some t \<Rightarrow> if t = '''' then d else t)"

definition is_space :: "char \<Rightarrow> bool" where
  "is_space c = (c \<in> set [CHR 0x20, CHR 0x09, CHR 0x0A, CHR 0x0B, CHR 0x0C, CHR 0x0D])"

definition trim :: "string \<Rightarrow> string" where
  "trim t = rev (dropWhile is_space (rev (dropWhile is_space t)))"

fun split_comma :: "string \<Rightarrow> string list" where
  "split_comma [] = [[]]"
| "split_comma (c # cs) =
     (if c = CHR '','' then [] # split_comma cs
      else (case split_comma cs of [] \<Rightarrow> [[c]] | w # ws \<Rightarrow> (c # w) # ws))"

definition hex_digit :: "nat \<Rightarrow> char" where
  "hex_digit n = ''0123456789abcdef'' ! (n mod 16)"

definition json_escape :: "char \<Rightarrow> string" where
  "json_escape c =
     (if c = CHR 0x22 then [CHR 0x5C, CHR 0x22]
      else if c = CHR 0x5C then [CHR 0x5C, CHR 0x5C]
      else if c = CHR 0x08 then [CHR 0x5C, CHR ''b'']
      else if c = CHR 0x0C then [CHR 0x5C, CHR ''f'']
      else if c = CHR 0x0A then [CHR 0x5C, CHR ''n'']
      else if c = CHR 0x0D then [CHR 0x5C, CHR ''r'']
      else if c = CHR 0x09 then [CHR 0x5C, CHR ''t'']
      else if (of_char c :: nat) < 32
      then [CHR 0x5C, CHR ''u'', CHR ''0'', CHR ''0'',
            hex_digit ((of_char c :: nat) div 16), hex_digit (of_char c)]
      else [c])"

definition json_string :: "string \<Rightarrow> string" where
  "json_string t = [CHR 0x22] @ concat (map json_escape t) @ [CHR 0x22]"

fun join_comma :: "string list \<Rightarrow> string" where
  "join_comma [] = []"
| "join_comma [t] = t"
| "join_comma (t # u # us) = t @ '','' @ join_comma (u # us)"

definition JSON_stringify :: "string list \<Rightarrow> string" where
  "JSON_stringify ts = ''['' @ join_comma (map json_string ts) @ '']''"

definition env_header :: "NeuralComposerSettings \<Rightarrow> string" where
  "env_header s =
     ''# Generated by Neural Composer'' @ nl
     @ ''# You can edit this file manually before restarting.'' @ nl @ nl
     @ ''WORKING_DIR='' @ lightRagWorkDir s @ nl
     @ ''HOST=0.0.0.0'' @ nl
     @ ''PORT=9621'' @ nl
     @ ''SUMMARY_LANGUAGE='' @ orElse (Some (lightRagSummaryLanguage s)) ''English'' @ nl
     @ nl @ ''# --- Performance Tuning ---'' @ nl
     @ ''MAX_ASYNC='' @ show_int (lightRagMaxAsync s) @ nl
     @ ''MAX_PARALLEL_INSERT='' @ show_int (lightRagMaxParallelInsert s) @ nl
     @ ''CHUNK_SIZE='' @ show_int (lightRagChunkSize s) @ nl
     @ ''CHUNK_OVERLAP_SIZE='' @ show_int (lightRagChunkOverlap s) @ nl @ nl"

definition env_llm :: "ChatModel option \<Rightarrow> LLMProvider option \<Rightarrow> string" where
  "env_llm llmModelObj llmProvider =
     (case (llmModelObj, llmProvider) of
        (Some m, Some pr) \<Rightarrow>
          ''# LLM Configuration'' @ nl
          @ ''LLM_BINDING='' @ lp_id pr @ nl
          @ ''LLM_MODEL='' @ cm_model m @ nl
          @ (if lp_id pr = ''ollama'' \<and> truthy (lp_baseUrl pr)
             then ''OLLAMA_HOST='' @ the (lp_baseUrl pr) @ nl
             else if lp_id pr = ''openai''
                     \<and> (case lp_baseUrl pr of None \<Rightarrow> False | Some b \<Rightarrow> str_includes b ''localhost'')
             then ''OPENAI_BASE_URL='' @ the (lp_baseUrl pr) @ nl
             else '''')
      | _ \<Rightarrow> '''')"

definition env_embedding :: "EmbeddingModel option \<Rightarrow> LLMProvider option \<Rightarrow> string" where
  "env_embedding embedModelObj embedProvider =
     (case (embedModelObj, embedProvider) of
        (Some m, Some pr) \<Rightarrow>
          nl @ ''# Embedding Configuration'' @ nl
          @ ''EMBEDDING_BINDING='' @ lp_id pr @ nl
          @ ''EMBEDDING_MODEL='' @ em_model m @ nl
          @ ''EMBEDDING_DIM=''
          @ show_int (case em_dimension m of None \<Rightarrow> 1024 | Some d \<Rightarrow> if d = 0 then 1024 else d) @ nl
          @ ''MAX_TOKEN_SIZE=8192'' @ nl
      | _ \<Rightarrow> '''')"

definition env_rerank :: "NeuralComposerSettings \<Rightarrow> string" where
  "env_rerank s =
     (let rerankSelection = lightRagRerankBinding s
      in if rerankSelection \<noteq> '''' then
           nl @ ''# Reranking Configuration'' @ nl
           @ (if rerankSelection = ''custom''
              then ''RERANK_BINDING_HOST='' @ lightRagRerankHost s @ nl
              else (if rerankSelection = ''jina''
                    then ''RERANK_BINDING_HOST=https://api.jina.ai/v1/rerank'' @ nl else '''')
                   @ (if rerankSelection = ''cohere''
                      then ''RERANK_BINDING_HOST=https://api.cohere.com/v2/rerank'' @ nl else ''''))
           @ ''RERANK_BINDING=''
           @ (if rerankSelection = ''custom''
              then orElse (Some (lightRagRerankBindingType s)) ''cohere''
              else rerankSelection) @ nl
           @ ''RERANK_MODEL='' @ lightRagRerankModel s @ nl
           @ (if lightRagRerankApiKey s \<noteq> ''''
              then ''RERANK_BINDING_API_KEY='' @ lightRagRerankApiKey s @ nl else '''')
         else nl @ ''# Reranking Disabled'' @ nl @ ''RERANK_BINDING=null'' @ nl)"

definition env_apikey :: "LLMProvider option \<Rightarrow> string" where
  "env_apikey pr =
     (case pr of
        None \<Rightarrow> ''''
      | Some q \<Rightarrow>
          (if truthy (lp_apiKey q) then
             (let keyName = toUpperCase (lp_id q)
              in (if keyName = ''GEMINI'' then ''GEMINI_API_KEY='' @ the (lp_apiKey q) @ nl else '''')
                 @ (if keyName = ''OPENAI'' then ''OPENAI_API_KEY='' @ the (lp_apiKey q) @ nl else '''')
                 @ (if keyName = ''ANTHROPIC'' then ''ANTHROPIC_API_KEY='' @ the (lp_apiKey q) @ nl else ''''))
           else ''''))"

text \<open>
  \<^verbatim>\<open>new Set([llmProvider, embedProvider])\<close> holds one element when both lookups gave the
  same object of \<^verbatim>\<open>settings.providers\<close> (or both gave \<^verbatim>\<open>undefined\<close>), two otherwise.
  Both come from \<^verbatim>\<open>find\<close> by id on the same array, so they are the same object exactly
  when they are equal.
\<close>

definition env_apikeys :: "LLMProvider option \<Rightarrow> LLMProvider option \<Rightarrow> string" where
  "env_apikeys llmProvider embedProvider =
     nl @ ''# API Keys'' @ nl
     @ concat (map env_apikey
         (if llmProvider = embedProvider then [llmProvider] else [llmProvider, embedProvider]))"

definition env_entity_types :: "NeuralComposerSettings \<Rightarrow> string" where
  "env_entity_types s =
     (if useCustomEntityTypes s then
        (let rawTypes = lightRagEntityTypes s
         in if rawTypes \<noteq> '''' \<and> length (trim rawTypes) > 0 then
              (let typeList = filter (\<lambda>t. length t > 0) (map trim (split_comma rawTypes))
               in nl @ ''ENTITY_TYPES='' @ [CHR 0x27] @ JSON_stringify typeList @ [CHR 0x27] @ nl)
            else '''')
      else '''')"

definition env_custom :: "NeuralComposerSettings \<Rightarrow> string" where
  "env_custom s =
     (if lightRagCustomEnv s \<noteq> '''' then
        nl @ nl @ ''#####################################'' @ nl
        @ ''### USER CUSTOM CONFIGURATION     ###'' @ nl
        @ ''### (Overrides defaults above)    ###'' @ nl
        @ ''#####################################'' @ nl
        @ lightRagCustomEnv s @ nl
      else '''')"

definition env_oauth :: "NeuralComposerSettings \<Rightarrow> string" where
  "env_oauth s =
     (if lightRagOAuthProvider s \<noteq> '''' then
        (let providerId = lightRagOAuthProvider s
         in case map_of (oauthCredentials s) providerId of
              None \<Rightarrow> ''''
            | Some creds \<Rightarrow>
                nl @ ''# OAuth Token (auto-managed by Axiom Cortex)'' @ nl
                @ ''OAUTH_PROVIDER='' @ providerId @ nl
                @ (if providerId = ''anthropic'' then ''ANTHROPIC_API_KEY='' @ access creds @ nl
                   else if providerId = ''openai-codex'' then ''OPENAI_API_KEY='' @ access creds @ nl
                   else if providerId = ''google-antigravity'' \<or> providerId = ''google-gemini-cli''
                   then ''GEMINI_API_KEY='' @ access creds @ nl
                        @ (if truthy (projectId creds)
                           then ''GOOGLE_CLOUD_PROJECT='' @ the (projectId creds) @ nl else '''')
                   else if providerId = ''github-copilot''
                   then ''OPENAI_API_KEY='' @ access creds @ nl
                        @ (if truthy (enterpriseUrl creds)
                           then ''COPILOT_ENTERPRISE_URL='' @ the (enterpriseUrl creds) @ nl else '''')
                   else '''')
                @ ''OAUTH_ACCESS_TOKEN='' @ access creds @ nl
                @ (if truthy (projectId creds)
                   then ''OAUTH_PROJECT_ID='' @ the (projectId creds) @ nl else '''')
                @ (if truthy (accountId creds)
                   then ''OAUTH_ACCOUNT_ID='' @ the (accountId creds) @ nl else ''''))
      else '''')"

definition generateEnvConfig :: "plugin \<Rightarrow> string" where
  "generateEnvConfig p =
     (let s = settings p; workDir = lightRagWorkDir s
      in if workDir = '''' then ''''
         else
           (let targetLlmId = orElse (lightRagModelId s) (chatModelId s);
                embeddingId = orElse (lightRagEmbeddingModelId s) (embeddingModelId s);
                llmModelObj = find (\<lambda>m. cm_id m = targetLlmId) (chatModels s);
                embedModelObj = find (\<lambda>m. em_id m = embeddingId) (embeddingModels s);
                llmProvider = (case llmModelObj of None \<Rightarrow> None
                               | Some m \<Rightarrow> find (\<lambda>pr. lp_id pr = cm_providerId m) (providers s));
                embedProvider = (case embedModelObj of None \<Rightarrow> None
                                 | Some m \<Rightarrow> find (\<lambda>pr. lp_id pr = em_providerId m) (providers s))
            in env_header s
               @ env_llm llmModelObj llmProvider
               @ env_embedding embedModelObj embedProvider
               @ env_rerank s
               @ env_apikeys llmProvider embedProvider
               @ env_entity_types s
               @ env_custom s
               @ env_oauth s))"

section \<open>Example values\<close>

text \<open>
  A provider whose refresh call rejects a revoked refresh token and otherwise issues a new
  access token with one more hour to live (the first call of a session issues
  \<open>access-1\<close>, every later one \<open>access-2\<close>); an environment in which only
  \<open>anthropic\<close> and \<open>openai-codex\<close> are registered (with that implementation), every save succeeds and the server answers every request
  (or replies as listed, by request number); and a plugin state around a given credential
  store and active provider, with the automatic server start off or on.
\<close>

definition example_provider :: OAuthProviderInterface where
  "example_provider =
     \<lparr>provider_name = ''Anthropic'',
      provider_login = Inl ''cancelled'',
      provider_refreshToken =
        (\<lambda>n c. if refresh c = ''revoked'' then None
               else Some (c\<lparr>access := (if n = 0 then ''access-1'' else ''access-2''),
                           expires := expires c + 3600000\<rparr>)),
      provider_getApiKey = access\<rparr>"

definition example_env :: environment where
  "example_env =
     \<lparr>now = 1000000,
      oauthProviderRegistry =
        (\<lambda>i. if i = ''anthropic'' \<or> i = ''openai-codex'' then Some example_provider else None),
      saveData_ok = (\<lambda>n. True),
      lightRagServer = (\<lambda>n h. Response 200 ''ok'')\<rparr>"

definition example_server_env :: "(nat \<Rightarrow> http_reply) \<Rightarrow> environment" where
  "example_server_env replies = example_env\<lparr>lightRagServer := (\<lambda>n h. replies n)\<rparr>"

definition example_creds :: "string \<Rightarrow> int \<Rightarrow> OAuthCredentials" where
  "example_creds r e =
     \<lparr>refresh = r, access = ''access-0'', expires = e, email = None,
      projectId = None, accountId = None, enterpriseUrl = None\<rparr>"

definition example_settings :: "(string \<times> OAuthCredentials) list \<Rightarrow> string \<Rightarrow> NeuralComposerSettings" where
  "example_settings creds active =
     \<lparr>providers = [\<lparr>lp_id = ''openai'', lp_baseUrl = None, lp_apiKey = Some ''sk-1''\<rparr>],
      chatModels = [\<lparr>cm_id = ''chat'', cm_providerId = ''openai'', cm_model = ''gpt-4o''\<rparr>],
      embeddingModels = [],
      chatModelId = ''chat'',
      embeddingModelId = ''embed'',
      enableAutoStartServer = False,
      lightRagWorkDir = ''/vault/rag'',
      lightRagModelId = Some '''',
      lightRagSummaryLanguage = ''English'',
      lightRagEmbeddingModelId = Some '''',
      lightRagRerankBinding = '''',
      lightRagRerankModel = '''',
      lightRagRerankApiKey = '''',
      lightRagRerankHost = '''',
      lightRagRerankBindingType = '''',
      lightRagEntityTypes = '''',
      useCustomEntityTypes = False,
      lightRagCustomEnv = '''',
      lightRagMaxAsync = 4,
      lightRagMaxParallelInsert = 1,
      lightRagChunkSize = 1200,
      lightRagChunkOverlap = 100,
      oauthCredentials = creds,
      lightRagOAuthProvider = active\<rparr>"

definition example_plugin :: "(string \<times> OAuthCredentials) list \<Rightarrow> string \<Rightarrow> plugin" where
  "example_plugin creds active =
     \<lparr>settings = example_settings creds active, saved = None, saveCalls = 0,
      refreshLog = [], syncs = 0, notices = []\<rparr>"

definition example_plugin_autostart :: "(string \<times> OAuthCredentials) list \<Rightarrow> string \<Rightarrow> plugin" where
  "example_plugin_autostart creds active =
     (example_plugin creds active)
       \<lparr>settings := (example_settings creds active)\<lparr>enableAutoStartServer := True\<rparr>\<rparr>"

definition example_rag :: "plugin \<Rightarrow> rag_state" where
  "example_rag p =
     \<lparr>host = p, requests = [], forceRefreshCalls = 0, serverRestarts = 0, rag_notices = []\<rparr>"

section \<open>What the manager operations change\<close>

lemma saveData_fst [simp]:
  "settings (fst (saveData env p)) = settings p"
  "refreshLog (fst (saveData env p)) = refreshLog p"
  "notices (fst (saveData env p)) = notices p"
  "saveCalls (fst (saveData env p)) = Suc (saveCalls p)"
  by (simp_all add: saveData_def)

lemma clearCredentials_settings:
  "settings (fst (clearCredentials env providerId p)) =
     (settings p)\<lparr>oauthCredentials := AList.delete providerId (oauthCredentials (settings p)),
                   lightRagOAuthProvider := (if lightRagOAuthProvider (settings p) = providerId then ''''
                                            else lightRagOAuthProvider (settings p))\<rparr>"
  by (simp add: clearCredentials_def Let_def setCredentials_def getCredentials_def saveData_def
      syncToLightRagServer_def split: prod.splits bool.splits)

lemma saveCredentials_settings:
  "settings (fst (saveCredentials env providerId creds p)) =
     (settings p)\<lparr>oauthCredentials := AList.update providerId creds (oauthCredentials (settings p))\<rparr>"
  by (simp add: saveCredentials_def Let_def setCredentials_def getCredentials_def saveData_def
      syncToLightRagServer_def split: prod.splits bool.splits)

lemma saveCredentials_refreshLog:
  "refreshLog (fst (saveCredentials env providerId creds p)) = refreshLog p"
  by (simp add: saveCredentials_def Let_def setCredentials_def getCredentials_def saveData_def
      syncToLightRagServer_def split: prod.splits bool.splits)

lemma clearCredentials_record:
  "map_of (getCredentials (fst (clearCredentials env providerId p))) providerId = None"
  by (simp add: getCredentials_def clearCredentials_settings AList.delete_conv')

lemma clearCredentials_saved:
  "saveCalls (fst (clearCredentials env providerId p)) = Suc (saveCalls p)"
  "saveData_ok env (saveCalls p) \<Longrightarrow>
     saved (fst (clearCredentials env providerId p)) = Some (settings (fst (clearCredentials env providerId p)))"
  "\<not> saveData_ok env (saveCalls p) \<Longrightarrow> saved (fst (clearCredentials env providerId p)) = saved p"
  by (simp_all add: clearCredentials_def Let_def setCredentials_def getCredentials_def saveData_def
      syncToLightRagServer_def split: prod.splits bool.splits)

text \<open>
  Claim C10. For a provider id that is not in the registry, \<^verbatim>\<open>getApiKey\<close> yields
  \<^verbatim>\<open>undefined\<close> without raising and leaves the whole plugin state as it was (the
  credential store and the active provider included), whereas \<^verbatim>\<open>login\<close> rejects with
  the unknown-provider error.
\<close>

theorem getApiKey_unknown_provider:
  "getOAuthProvider env providerId = None \<Longrightarrow>
     getApiKey env providerId p = (p, Inr None)
     \<and> login env providerId p = (p, Inl (UnknownProvider providerId))"
  by (simp add: getApiKey_def login_def)

theorem getApiKey_unknown_provider_witness:
  "getOAuthProvider example_env ''acme'' = None
   \<and> getApiKey example_env ''acme'' (example_plugin [(''acme'', example_creds ''r'' 0)] ''acme'')
       = (example_plugin [(''acme'', example_creds ''r'' 0)] ''acme'', Inr None)
   \<and> login example_env ''acme'' (example_plugin [(''acme'', example_creds ''r'' 0)] ''acme'')
       = (example_plugin [(''acme'', example_creds ''r'' 0)] ''acme'', Inl (UnknownProvider ''acme''))"
proof -
  have h: "getOAuthProvider example_env ''acme'' = None"
    by (simp add: getOAuthProvider_def example_env_def)
  show ?thesis using h getApiKey_unknown_provider [OF h] by simp
qed

lemma logout_fst:
  "settings (fst (logout env providerId p)) = settings (fst (clearCredentials env providerId p))"
  "saved (fst (logout env providerId p)) = saved (fst (clearCredentials env providerId p))"
  "saveCalls (fst (logout env providerId p)) = saveCalls (fst (clearCredentials env providerId p))"
  by (simp_all add: logout_def Notice_def split: prod.splits sum.splits)

text \<open>
  Claim C5. \<^verbatim>\<open>logout(P)\<close> leaves no record for \<open>P\<close>, leaves the record of every other
  provider as it was, changes the settings in nothing but the removed entry and the active
  designation (cleared when it was \<open>P\<close>), and issues exactly one \<^verbatim>\<open>saveData\<close> call:
  when that call succeeds, what is saved is the settings with both changes; when it fails,
  the saved data holds neither.
\<close>

theorem logout_removes_exactly:
  "map_of (oauthCredentials (settings (fst (logout env providerId p)))) providerId = None
   \<and> (\<forall>other. other \<noteq> providerId \<longrightarrow>
          map_of (oauthCredentials (settings (fst (logout env providerId p)))) other
          = map_of (oauthCredentials (settings p)) other)
   \<and> settings (fst (logout env providerId p)) =
       (settings p)\<lparr>oauthCredentials :=
                       filter (\<lambda>entry. fst entry \<noteq> providerId) (oauthCredentials (settings p)),
                     lightRagOAuthProvider :=
                       (if lightRagOAuthProvider (settings p) = providerId then ''''
                        else lightRagOAuthProvider (settings p))\<rparr>
   \<and> saveCalls (fst (logout env providerId p)) = Suc (saveCalls p)
   \<and> (saveData_ok env (saveCalls p) \<longrightarrow>
        saved (fst (logout env providerId p)) = Some (settings (fst (logout env providerId p))))
   \<and> (\<not> saveData_ok env (saveCalls p) \<longrightarrow> saved (fst (logout env providerId p)) = saved p)"
proof -
  have flt: "AList.delete providerId al = filter (\<lambda>entry. fst entry \<noteq> providerId) al" for al :: "(string \<times> OAuthCredentials) list"
    by (induction al) (auto simp: AList.delete_eq)
  show ?thesis
    by (simp add: logout_fst clearCredentials_settings clearCredentials_saved AList.delete_conv' flt [symmetric])
qed

theorem logout_removes_exactly_witness:
  "saveData_ok example_env
     (saveCalls (example_plugin [(''anthropic'', example_creds ''r1'' 5), (''acme'', example_creds ''r2'' 7)] ''anthropic''))
   \<and> map_of (oauthCredentials (settings (fst (logout example_env ''anthropic''
         (example_plugin [(''anthropic'', example_creds ''r1'' 5), (''acme'', example_creds ''r2'' 7)] ''anthropic'')))))
       ''anthropic'' = None
   \<and> map_of (oauthCredentials (settings (fst (logout example_env ''anthropic''
         (example_plugin [(''anthropic'', example_creds ''r1'' 5), (''acme'', example_creds ''r2'' 7)] ''anthropic'')))))
       ''acme'' = Some (example_creds ''r2'' 7)
   \<and> saved (fst (logout example_env ''anthropic''
         (example_plugin [(''anthropic'', example_creds ''r1'' 5), (''acme'', example_creds ''r2'' 7)] ''anthropic'')))
       = Some (example_settings [(''acme'', example_creds ''r2'' 7)] '''')"
  using logout_removes_exactly [of example_env "''anthropic''"
      "example_plugin [(''anthropic'', example_creds ''r1'' 5), (''acme'', example_creds ''r2'' 7)] ''anthropic''"]
  by (simp add: example_env_def example_plugin_def example_settings_def)

lemma callRefreshToken_fst [simp]:
  "settings (fst (callRefreshToken provider providerId creds p)) = settings p"
  "saved (fst (callRefreshToken provider providerId creds p)) = saved p"
  "saveCalls (fst (callRefreshToken provider providerId creds p)) = saveCalls p"
  "refreshLog (fst (callRefreshToken provider providerId creds p)) = refreshLog p @ [(providerId, creds)]"
  "snd (callRefreshToken provider providerId creds p) = provider_refreshToken provider (length (refreshLog p)) creds"
  by (simp_all add: callRefreshToken_def)

lemma getCredentials_callRefreshToken [simp]:
  "getCredentials (fst (callRefreshToken provider providerId creds p)) = getCredentials p"
  by (simp add: getCredentials_def)

lemma clearCredentials_record_eq:
  "clearCredentials env providerId p = (p1, r) \<Longrightarrow> map_of (getCredentials p1) providerId = None"
  using clearCredentials_record [of env providerId p] by simp

lemma getApiKey_catch_record:
  "map_of (getCredentials (fst (getApiKey_catch env providerId provider p))) providerId = None"
  by (auto simp: getApiKey_catch_def Notice_def getCredentials_def
      split: prod.splits sum.splits dest: clearCredentials_record_eq)

lemma getApiKey_refresh_failure:
  assumes "getOAuthProvider env providerId = Some provider"
    and "map_of (getCredentials p) providerId = Some creds"
    and "now env \<ge> expires creds"
    and "provider_refreshToken provider (length (refreshLog p)) creds = None"
  shows "map_of (getCredentials (fst (getApiKey env providerId p))) providerId = None"
proof -
  obtain p1 where c: "callRefreshToken provider providerId creds p = (p1, None)"
    using assms(4) by (simp add: callRefreshToken_def)
  have "getApiKey env providerId p = getApiKey_catch env providerId provider p1"
    using assms(1-3) c by (simp add: getApiKey_def)
  then show ?thesis by (simp add: getApiKey_catch_record)
qed

lemma forceRefresh_failure:
  assumes "lightRagOAuthProvider (settings p) = providerId" and "providerId \<noteq> ''''"
    and "getOAuthProvider env providerId = Some provider"
    and "map_of (getCredentials p) providerId = Some creds"
    and "refresh creds \<noteq> ''''"
    and "provider_refreshToken provider (length (refreshLog p)) creds = None"
  shows "map_of (getCredentials (fst (forceRefreshActiveToken env p))) providerId = None"
proof -
  obtain p1 where c: "callRefreshToken provider providerId creds p = (p1, None)"
    using assms(6) by (simp add: callRefreshToken_def)
  have "fst (forceRefreshActiveToken env p) =
          (case clearCredentials env providerId p1 of
             (q1, Inl e) \<Rightarrow> q1
           | (q1, Inr u) \<Rightarrow> Notice (''OAuth token invalid for '' @ provider_name provider @ ''. Please login again.'') q1)"
    using assms(1-5) c by (simp add: forceRefreshActiveToken_def Let_def split: prod.splits sum.splits)
  then show ?thesis
    by (auto simp: Notice_def getCredentials_def split: prod.splits sum.splits
        dest: clearCredentials_record_eq)
qed

lemma refreshEntries_append:
  "refreshEntries env thr (xs @ ys) p = refreshEntries env thr ys (refreshEntries env thr xs p)"
  by (induction xs arbitrary: p) simp_all

lemma refreshEntry_other:
  "providerId \<noteq> fst entry \<Longrightarrow>
     map_of (getCredentials (refreshEntry env thr entry p)) providerId = map_of (getCredentials p) providerId"
  by (cases entry)
     (auto simp: refreshEntry_def callRefreshToken_def getCredentials_def saveCredentials_settings
        AList.update_conv' split: option.splits)

lemma refreshEntries_other:
  "providerId \<notin> fst ` set es \<Longrightarrow>
     map_of (getCredentials (refreshEntries env thr es p)) providerId = map_of (getCredentials p) providerId"
proof (induction es arbitrary: p)
  case Nil
  then show ?case by simp
next
  case (Cons entry es)
  then show ?case by (simp add: refreshEntry_other)
qed

lemma refreshEntry_failure:
  assumes "getOAuthProvider env providerId = Some provider"
    and "provider_refreshToken provider (length (refreshLog p)) creds = None"
  shows "getCredentials (refreshEntry env thr (providerId, creds) p) = getCredentials p"
  using assms by (simp add: refreshEntry_def callRefreshToken_def getCredentials_def)

lemma sweep_failure_keeps_record:
  assumes "getCredentials p = pre @ (providerId, creds) # post"
    and "distinct (map fst (getCredentials p))"
    and "getOAuthProvider env providerId = Some provider"
    and "provider_refreshToken provider
           (length (refreshLog (refreshEntries env (now env + 10 * 60 * 1000) pre p))) creds = None"
  shows "map_of (getCredentials (refreshAllIfNeeded env p)) providerId = Some creds"
proof -
  let ?thr = "now env + 10 * 60 * 1000"
  let ?q = "refreshEntries env ?thr pre p"
  have npre: "providerId \<notin> fst ` set pre" and npost: "providerId \<notin> fst ` set post"
    using assms(1,2) by auto
  have before: "map_of (getCredentials p) providerId = Some creds"
    using npre assms(1) by (simp add: map_add_def map_of_eq_None_iff [THEN iffD2])
  have "refreshAllIfNeeded env p = refreshEntries env ?thr post (refreshEntry env ?thr (providerId, creds) ?q)"
    by (simp add: refreshAllIfNeeded_def Let_def assms(1) refreshEntries_append)
  then have "map_of (getCredentials (refreshAllIfNeeded env p)) providerId
               = map_of (getCredentials (refreshEntry env ?thr (providerId, creds) ?q)) providerId"
    by (simp add: refreshEntries_other [OF npost])
  also have "\<dots> = map_of (getCredentials ?q) providerId"
    using refreshEntry_failure [OF assms(3,4)] by simp
  also have "\<dots> = map_of (getCredentials p) providerId"
    by (rule refreshEntries_other [OF npre])
  finally show ?thesis using before by simp
qed

text \<open>
  Claim C2. When the refresh call for provider \<open>P\<close> fails inside \<^verbatim>\<open>getApiKey(P)\<close>
  (the record is expired) or inside \<^verbatim>\<open>forceRefreshActiveToken\<close> with \<open>P\<close> active
  (the record has a refresh token), \<open>P\<close> has no stored record afterwards. When the
  refresh call that \<^verbatim>\<open>refreshAllIfNeeded\<close> makes for \<open>P\<close> fails (in the state
  reached after the entries before it), the record of \<open>P\<close> after the sweep is the one
  from before the sweep.
\<close>

theorem refresh_failure_policy:
  "(getOAuthProvider env P = Some provider \<and> map_of (getCredentials p) P = Some creds
      \<and> now env \<ge> expires creds
      \<and> provider_refreshToken provider (length (refreshLog p)) creds = None
    \<longrightarrow> map_of (getCredentials (fst (getApiKey env P p))) P = None)
   \<and> (lightRagOAuthProvider (settings p) = P \<and> P \<noteq> ''''
        \<and> getOAuthProvider env P = Some provider \<and> map_of (getCredentials p) P = Some creds
        \<and> refresh creds \<noteq> ''''
        \<and> provider_refreshToken provider (length (refreshLog p)) creds = None
      \<longrightarrow> map_of (getCredentials (fst (forceRefreshActiveToken env p))) P = None)
   \<and> (getCredentials p = pre @ (P, creds) # post \<and> distinct (map fst (getCredentials p))
        \<and> getOAuthProvider env P = Some provider
        \<and> provider_refreshToken provider
             (length (refreshLog (refreshEntries env (now env + 10 * 60 * 1000) pre p))) creds = None
      \<longrightarrow> map_of (getCredentials (refreshAllIfNeeded env p)) P = Some creds)"
  using getApiKey_refresh_failure [of env P provider p creds]
    forceRefresh_failure [of p P env provider creds]
    sweep_failure_keeps_record [of p pre P creds post env provider]
  by (intro conjI impI) (elim conjE, simp)+

text \<open>
  A revoked refresh token for the active provider: all three paths attempt the refresh and
  fail.
\<close>

theorem refresh_failure_policy_witness:
  "getOAuthProvider example_env ''anthropic'' = Some example_provider
   \<and> map_of (getCredentials (example_plugin [(''anthropic'', example_creds ''revoked'' 5)] ''anthropic''))
        ''anthropic'' = Some (example_creds ''revoked'' 5)
   \<and> now example_env \<ge> expires (example_creds ''revoked'' 5)
   \<and> refresh (example_creds ''revoked'' 5) \<noteq> ''''
   \<and> provider_refreshToken example_provider 0 (example_creds ''revoked'' 5) = None
   \<and> map_of (getCredentials (fst (getApiKey example_env ''anthropic''
         (example_plugin [(''anthropic'', example_creds ''revoked'' 5)] ''anthropic'')))) ''anthropic'' = None
   \<and> map_of (getCredentials (fst (forceRefreshActiveToken example_env
         (example_plugin [(''anthropic'', example_creds ''revoked'' 5)] ''anthropic'')))) ''anthropic'' = None
   \<and> map_of (getCredentials (refreshAllIfNeeded example_env
         (example_plugin [(''anthropic'', example_creds ''revoked'' 5)] ''anthropic''))) ''anthropic''
       = Some (example_creds ''revoked'' 5)"
  using refresh_failure_policy [of example_env "''anthropic''" example_provider
      "example_plugin [(''anthropic'', example_creds ''revoked'' 5)] ''anthropic''"
      "example_creds ''revoked'' 5" "[]" "[]"]
  by (simp add: getOAuthProvider_def getCredentials_def example_env_def example_plugin_def
      example_settings_def example_creds_def example_provider_def)

text \<open>
  Claim C3, as stated, fails: with an empty refresh token on the active provider's record,
  \<^verbatim>\<open>forceRefreshActiveToken\<close> leaves the record in the store and raises no notice.
\<close>

theorem forceRefresh_without_refresh_token_counterexample:
  "map_of (getCredentials (fst (forceRefreshActiveToken example_env
       (example_plugin [(''anthropic'', example_creds '''' 5)] ''anthropic'')))) ''anthropic''
     = Some (example_creds '''' 5)
   \<and> notices (fst (forceRefreshActiveToken example_env
       (example_plugin [(''anthropic'', example_creds '''' 5)] ''anthropic''))) = []"
  by (simp add: forceRefreshActiveToken_def Let_def getOAuthProvider_def getCredentials_def
      example_env_def example_plugin_def example_settings_def example_creds_def)

text \<open>
  Claim C3, amended. When the active provider's stored record has no refresh token,
  \<^verbatim>\<open>forceRefreshActiveToken\<close> yields \<^verbatim>\<open>undefined\<close> and changes nothing: the record
  stays in the store, the active designation stays, no refresh call is made, nothing is
  saved and no notice is raised by the manager.
\<close>

theorem forceRefresh_without_refresh_token:
  "lightRagOAuthProvider (settings p) = P \<Longrightarrow> map_of (getCredentials p) P = Some creds \<Longrightarrow>
   refresh creds = '''' \<Longrightarrow> forceRefreshActiveToken env p = (p, Inr None)"
  by (simp add: forceRefreshActiveToken_def Let_def split: option.splits)

theorem forceRefresh_without_refresh_token_witness:
  "lightRagOAuthProvider (settings (example_plugin [(''anthropic'', example_creds '''' 5)] ''anthropic''))
     = ''anthropic''
   \<and> map_of (getCredentials (example_plugin [(''anthropic'', example_creds '''' 5)] ''anthropic''))
        ''anthropic'' = Some (example_creds '''' 5)
   \<and> refresh (example_creds '''' 5) = ''''
   \<and> forceRefreshActiveToken example_env (example_plugin [(''anthropic'', example_creds '''' 5)] ''anthropic'')
       = (example_plugin [(''anthropic'', example_creds '''' 5)] ''anthropic'', Inr None)"
proof -
  have a: "lightRagOAuthProvider (settings (example_plugin [(''anthropic'', example_creds '''' 5)] ''anthropic''))
     = ''anthropic''"
    by (simp add: example_plugin_def example_settings_def)
  have b: "map_of (getCredentials (example_plugin [(''anthropic'', example_creds '''' 5)] ''anthropic''))
        ''anthropic'' = Some (example_creds '''' 5)"
    by (simp add: getCredentials_def example_plugin_def example_settings_def)
  have c: "refresh (example_creds '''' 5) = ''''"
    by (simp add: example_creds_def)
  show ?thesis
    using a b c forceRefresh_without_refresh_token [OF a b c, of example_env] by simp
qed

lemma refreshEntry_log:
  "refreshLog (refreshEntry env thr entry p) =
     refreshLog p @ (if access (snd entry) \<noteq> '''' \<and> expires (snd entry) \<le> thr
                        \<and> getOAuthProvider env (fst entry) \<noteq> None then [entry] else [])"
  by (cases entry)
     (auto simp: refreshEntry_def callRefreshToken_def saveCredentials_refreshLog split: option.splits)

lemma refreshEntries_log:
  "refreshLog (refreshEntries env thr es p) =
     refreshLog p @ filter (\<lambda>entry. access (snd entry) \<noteq> '''' \<and> expires (snd entry) \<le> thr
                                    \<and> getOAuthProvider env (fst entry) \<noteq> None) es"
  by (induction es arbitrary: p) (simp_all add: refreshEntry_log)

lemma refreshEntry_skipped:
  "\<not> (access creds \<noteq> '''' \<and> expires creds \<le> thr \<and> getOAuthProvider env providerId \<noteq> None) \<Longrightarrow>
     refreshEntry env thr (providerId, creds) p = p"
  by (auto simp: refreshEntry_def split: option.splits)

lemma sweep_skipped_keeps_record:
  assumes "distinct (map fst (getCredentials p))"
    and "(providerId, creds) \<in> set (getCredentials p)"
    and "\<not> (access creds \<noteq> '''' \<and> expires creds \<le> now env + 10 * 60 * 1000
            \<and> getOAuthProvider env providerId \<noteq> None)"
  shows "map_of (getCredentials (refreshAllIfNeeded env p)) providerId = Some creds"
proof -
  let ?thr = "now env + 10 * 60 * 1000"
  obtain pre post where split: "getCredentials p = pre @ (providerId, creds) # post"
    using assms(2) by (auto dest: split_list)
  have npre: "providerId \<notin> fst ` set pre" and npost: "providerId \<notin> fst ` set post"
    using assms(1) split by auto
  have before: "map_of (getCredentials p) providerId = Some creds"
    using assms(1,2) by simp
  have "refreshAllIfNeeded env p =
          refreshEntries env ?thr post (refreshEntry env ?thr (providerId, creds) (refreshEntries env ?thr pre p))"
    by (simp add: refreshAllIfNeeded_def Let_def split refreshEntries_append)
  also have "\<dots> = refreshEntries env ?thr post (refreshEntries env ?thr pre p)"
    using refreshEntry_skipped [OF assms(3)] by simp
  finally show ?thesis
    using before by (simp add: refreshEntries_other [OF npost] refreshEntries_other [OF npre])
qed

lemma refreshEntry_success:
  assumes "getOAuthProvider env providerId = Some provider"
    and "access creds \<noteq> ''''" and "expires creds \<le> thr"
    and "provider_refreshToken provider (length (refreshLog p)) creds = Some newCreds"
  shows "map_of (getCredentials (refreshEntry env thr (providerId, creds) p)) providerId = Some newCreds"
  using assms
  by (simp add: refreshEntry_def callRefreshToken_def getCredentials_def saveCredentials_settings
      AList.update_conv')

lemma refreshEntry_success_saved:
  assumes "getOAuthProvider env providerId = Some provider"
    and "access creds \<noteq> ''''" and "expires creds \<le> thr"
    and "provider_refreshToken provider (length (refreshLog p)) creds = Some newCreds"
    and "\<forall>n. saveData_ok env n"
  shows "saved (refreshEntry env thr (providerId, creds) p)
           = Some (settings (refreshEntry env thr (providerId, creds) p))"
  using assms
  by (simp add: refreshEntry_def callRefreshToken_def saveCredentials_def Let_def setCredentials_def
      getCredentials_def saveData_def syncToLightRagServer_def)

lemma refreshEntry_keeps_saved:
  assumes "\<forall>n. saveData_ok env n" and "saved p = Some (settings p)"
  shows "saved (refreshEntry env thr entry p) = Some (settings (refreshEntry env thr entry p))"
  using assms
  by (cases entry)
     (auto simp: refreshEntry_def callRefreshToken_def saveCredentials_def Let_def setCredentials_def
        getCredentials_def saveData_def syncToLightRagServer_def split: option.splits)

lemma refreshEntries_keeps_saved:
  assumes "\<forall>n. saveData_ok env n"
  shows "saved p = Some (settings p) \<Longrightarrow>
         saved (refreshEntries env thr es p) = Some (settings (refreshEntries env thr es p))"
proof (induction es arbitrary: p)
  case Nil
  then show ?case by simp
next
  case (Cons entry es)
  then show ?case using refreshEntry_keeps_saved [OF assms] by simp
qed

lemma sweep_success_replaces_record:
  assumes "getCredentials p = pre @ (providerId, creds) # post"
    and "distinct (map fst (getCredentials p))"
    and "access creds \<noteq> ''''" and "expires creds \<le> now env + 10 * 60 * 1000"
    and "getOAuthProvider env providerId = Some provider"
    and "provider_refreshToken provider
           (length (refreshLog (refreshEntries env (now env + 10 * 60 * 1000) pre p))) creds
         = Some newCreds"
  shows "map_of (getCredentials (refreshAllIfNeeded env p)) providerId = Some newCreds"
    and "(\<forall>n. saveData_ok env n) \<Longrightarrow>
         saved (refreshAllIfNeeded env p) = Some (settings (refreshAllIfNeeded env p))"
proof -
  let ?thr = "now env + 10 * 60 * 1000"
  let ?q = "refreshEntries env ?thr pre p"
  let ?r = "refreshEntry env ?thr (providerId, creds) ?q"
  have npost: "providerId \<notin> fst ` set post"
    using assms(1,2) by auto
  have sweep: "refreshAllIfNeeded env p = refreshEntries env ?thr post ?r"
    by (simp add: refreshAllIfNeeded_def Let_def assms(1) refreshEntries_append)
  have "map_of (getCredentials ?r) providerId = Some newCreds"
    by (rule refreshEntry_success [OF assms(5,3,4,6)])
  then show "map_of (getCredentials (refreshAllIfNeeded env p)) providerId = Some newCreds"
    by (simp add: sweep refreshEntries_other [OF npost])
  assume ok: "\<forall>n. saveData_ok env n"
  have "saved ?r = Some (settings ?r)"
    by (rule refreshEntry_success_saved [OF assms(5,3,4,6) ok])
  then show "saved (refreshAllIfNeeded env p) = Some (settings (refreshAllIfNeeded env p))"
    unfolding sweep by (rule refreshEntries_keeps_saved [OF ok])
qed

text \<open>
  Claim C6, as stated, fails: a stored record that expires nine minutes from now, under a
  provider id that the registry does not know, is inside the look-ahead window and yet the
  sweep makes no refresh call and leaves the store as it was.
\<close>

theorem sweep_window_counterexample:
  "now example_env \<le> expires (example_creds ''r'' 1540000)
   \<and> expires (example_creds ''r'' 1540000) = now example_env + 9 * 60 * 1000
   \<and> refreshLog (refreshAllIfNeeded example_env
        (example_plugin [(''acme'', example_creds ''r'' 1540000)] '''')) = []
   \<and> getCredentials (refreshAllIfNeeded example_env
        (example_plugin [(''acme'', example_creds ''r'' 1540000)] ''''))
       = [(''acme'', example_creds ''r'' 1540000)]"
  by (simp add: refreshAllIfNeeded_def Let_def refreshEntry_def getOAuthProvider_def getCredentials_def
      example_env_def example_plugin_def example_settings_def example_creds_def)

text \<open>
  Claim C6, amended. The refresh calls that \<^verbatim>\<open>refreshAllIfNeeded\<close> makes are exactly,
  and in the order of the store, those for the stored records that have a non-empty access
  token, a registered provider, and an \<^verbatim>\<open>expires\<close> of at most ten minutes from now
  (records that have already expired included). Every other stored record, such as one
  that expires twenty minutes from now, is the same after the sweep. A record for which
  the call is made and succeeds is replaced in the store by the record that the call
  returned, and when the saves succeed the saved data equals the settings after the sweep,
  which hold the new record.
\<close>

theorem sweep_refreshes_due_records:
  "refreshLog (refreshAllIfNeeded env p) =
     refreshLog p @ filter (\<lambda>entry. access (snd entry) \<noteq> ''''
                                    \<and> expires (snd entry) \<le> now env + 10 * 60 * 1000
                                    \<and> getOAuthProvider env (fst entry) \<noteq> None) (getCredentials p)
   \<and> (distinct (map fst (getCredentials p)) \<and> (P, creds) \<in> set (getCredentials p)
        \<and> \<not> (access creds \<noteq> '''' \<and> expires creds \<le> now env + 10 * 60 * 1000
               \<and> getOAuthProvider env P \<noteq> None)
      \<longrightarrow> map_of (getCredentials (refreshAllIfNeeded env p)) P = Some creds)
   \<and> (getCredentials p = pre @ (Q, due) # post \<and> distinct (map fst (getCredentials p))
        \<and> access due \<noteq> '''' \<and> expires due \<le> now env + 10 * 60 * 1000
        \<and> getOAuthProvider env Q = Some provider
        \<and> provider_refreshToken provider
             (length (refreshLog (refreshEntries env (now env + 10 * 60 * 1000) pre p))) due
            = Some newCreds
      \<longrightarrow> map_of (getCredentials (refreshAllIfNeeded env p)) Q = Some newCreds
          \<and> ((\<forall>n. saveData_ok env n) \<longrightarrow>
                saved (refreshAllIfNeeded env p) = Some (settings (refreshAllIfNeeded env p))))"
proof (intro conjI impI)
  show "refreshLog (refreshAllIfNeeded env p) =
     refreshLog p @ filter (\<lambda>entry. access (snd entry) \<noteq> ''''
                                    \<and> expires (snd entry) \<le> now env + 10 * 60 * 1000
                                    \<and> getOAuthProvider env (fst entry) \<noteq> None) (getCredentials p)"
    by (simp add: refreshAllIfNeeded_def Let_def refreshEntries_log)
next
  assume "distinct (map fst (getCredentials p)) \<and> (P, creds) \<in> set (getCredentials p)
        \<and> \<not> (access creds \<noteq> '''' \<and> expires creds \<le> now env + 10 * 60 * 1000
               \<and> getOAuthProvider env P \<noteq> None)"
  then show "map_of (getCredentials (refreshAllIfNeeded env p)) P = Some creds"
    using sweep_skipped_keeps_record [of p P creds env] by blast
next
  assume h: "getCredentials p = pre @ (Q, due) # post \<and> distinct (map fst (getCredentials p))
        \<and> access due \<noteq> '''' \<and> expires due \<le> now env + 10 * 60 * 1000
        \<and> getOAuthProvider env Q = Some provider
        \<and> provider_refreshToken provider
             (length (refreshLog (refreshEntries env (now env + 10 * 60 * 1000) pre p))) due
            = Some newCreds"
  then show "map_of (getCredentials (refreshAllIfNeeded env p)) Q = Some newCreds"
    using sweep_success_replaces_record(1) [of p pre Q due post env provider newCreds] by blast
  assume "\<forall>n. saveData_ok env n"
  with h show "saved (refreshAllIfNeeded env p) = Some (settings (refreshAllIfNeeded env p))"
    using sweep_success_replaces_record(2) [of p pre Q due post env provider newCreds] by blast
qed

text \<open>
  The scenario of the claim: of two records of registered providers, the one that expires
  in nine minutes is refreshed (the call is made, the store and the saved data hold the
  record it returned) and the one that expires in twenty minutes is untouched.
\<close>

theorem sweep_refreshes_due_records_witness:
  "distinct (map fst (getCredentials (example_plugin
       [(''anthropic'', example_creds ''r1'' 1540000), (''openai-codex'', example_creds ''r2'' 2200000)] '''')))
   \<and> expires (example_creds ''r1'' 1540000) = now example_env + 9 * 60 * 1000
   \<and> expires (example_creds ''r2'' 2200000) = now example_env + 20 * 60 * 1000
   \<and> access (example_creds ''r1'' 1540000) \<noteq> ''''
   \<and> getOAuthProvider example_env ''anthropic'' = Some example_provider
   \<and> provider_refreshToken example_provider 0 (example_creds ''r1'' 1540000)
       = Some ((example_creds ''r1'' 1540000)\<lparr>access := ''access-1'', expires := 5140000\<rparr>)
   \<and> (\<forall>n. saveData_ok example_env n)
   \<and> refreshLog (refreshAllIfNeeded example_env (example_plugin
       [(''anthropic'', example_creds ''r1'' 1540000), (''openai-codex'', example_creds ''r2'' 2200000)] ''''))
     = [(''anthropic'', example_creds ''r1'' 1540000)]
   \<and> map_of (getCredentials (refreshAllIfNeeded example_env (example_plugin
       [(''anthropic'', example_creds ''r1'' 1540000), (''openai-codex'', example_creds ''r2'' 2200000)] '''')))
       ''openai-codex'' = Some (example_creds ''r2'' 2200000)
   \<and> map_of (getCredentials (refreshAllIfNeeded example_env (example_plugin
       [(''anthropic'', example_creds ''r1'' 1540000), (''openai-codex'', example_creds ''r2'' 2200000)] '''')))
       ''anthropic'' = Some ((example_creds ''r1'' 1540000)\<lparr>access := ''access-1'', expires := 5140000\<rparr>)
   \<and> saved (refreshAllIfNeeded example_env (example_plugin
       [(''anthropic'', example_creds ''r1'' 1540000), (''openai-codex'', example_creds ''r2'' 2200000)] ''''))
     = Some (settings (refreshAllIfNeeded example_env (example_plugin
       [(''anthropic'', example_creds ''r1'' 1540000), (''openai-codex'', example_creds ''r2'' 2200000)] '''')))"
proof -
  let ?c1 = "example_creds ''r1'' 1540000"
  let ?c2 = "example_creds ''r2'' 2200000"
  let ?new = "?c1\<lparr>access := ''access-1'', expires := 5140000\<rparr>"
  let ?p = "example_plugin [(''anthropic'', ?c1), (''openai-codex'', ?c2)] ''''"
  have store: "getCredentials ?p = [] @ (''anthropic'', ?c1) # [(''openai-codex'', ?c2)]"
    by (simp add: getCredentials_def example_plugin_def example_settings_def)
  have dist: "distinct (map fst (getCredentials ?p))"
    by (simp add: store)
  have mem: "(''openai-codex'', ?c2) \<in> set (getCredentials ?p)"
    by (simp add: store)
  have e1: "expires ?c1 = now example_env + 9 * 60 * 1000"
    and e2: "expires ?c2 = now example_env + 20 * 60 * 1000"
    and acc: "access ?c1 \<noteq> ''''"
    by (simp_all add: example_env_def example_creds_def)
  have reg: "getOAuthProvider example_env ''anthropic'' = Some example_provider"
    "getOAuthProvider example_env ''openai-codex'' = Some example_provider"
    by (simp_all add: getOAuthProvider_def example_env_def)
  have log0: "length (refreshLog (refreshEntries example_env (now example_env + 10 * 60 * 1000) [] ?p)) = 0"
    by (simp add: example_plugin_def)
  have rt: "provider_refreshToken example_provider 0 ?c1 = Some ?new"
    by (simp add: example_provider_def example_creds_def)
  have ok: "\<forall>n. saveData_ok example_env n"
    by (simp add: example_env_def)
  have logp: "refreshLog ?p = []"
    by (simp add: example_plugin_def)
  have flt: "filter (\<lambda>entry. access (snd entry) \<noteq> ''''
                                    \<and> expires (snd entry) \<le> now example_env + 10 * 60 * 1000
                                    \<and> getOAuthProvider example_env (fst entry) \<noteq> None) (getCredentials ?p)
             = [(''anthropic'', ?c1)]"
    unfolding store using e1 e2 acc reg by simp
  note inst = sweep_refreshes_due_records
      [of example_env "?p" "''openai-codex''" "?c2" "[]" "''anthropic''" "?c1"
          "[(''openai-codex'', ?c2)]" example_provider "?new"]
  have r1: "refreshLog (refreshAllIfNeeded example_env ?p) = [(''anthropic'', ?c1)]"
    using inst flt logp by simp
  have r2: "map_of (getCredentials (refreshAllIfNeeded example_env ?p)) ''openai-codex'' = Some ?c2"
    using inst dist mem e2 by simp
  have r3: "map_of (getCredentials (refreshAllIfNeeded example_env ?p)) ''anthropic'' = Some ?new
     \<and> saved (refreshAllIfNeeded example_env ?p) = Some (settings (refreshAllIfNeeded example_env ?p))"
    using inst store dist acc e1 reg(1) rt ok unfolding log0 by simp
  show ?thesis
    using dist e1 e2 acc reg(1) rt ok r1 r2 r3 by blast
qed

lemma saveCredentials_ok:
  "saveCredentials env providerId creds p = (p1, Inr u) \<Longrightarrow>
     saveData_ok env (saveCalls p) \<and> saved p1 = Some (settings p1)
     \<and> map_of (oauthCredentials (settings p1)) providerId = Some creds"
  by (auto simp: saveCredentials_def Let_def setCredentials_def getCredentials_def saveData_def
      syncToLightRagServer_def AList.update_conv' split: if_splits)

lemma getApiKey_catch_none:
  "getApiKey_catch env providerId provider p \<noteq> (p1, Inr (Some apiKey))"
  by (auto simp: getApiKey_catch_def split: prod.splits sum.splits)

lemma getApiKey_refresh_return:
  assumes "getOAuthProvider env P = Some provider"
    and "map_of (getCredentials p) P = Some creds"
    and "now env \<ge> expires creds"
    and "getApiKey env P p = (p1, Inr (Some apiKey))"
  shows "\<exists>newCreds. provider_refreshToken provider (length (refreshLog p)) creds = Some newCreds
           \<and> apiKey = provider_getApiKey provider newCreds
           \<and> saveData_ok env (saveCalls p)
           \<and> saved p1 = Some (settings p1)
           \<and> map_of (oauthCredentials (settings p1)) P = Some newCreds"
proof (cases "provider_refreshToken provider (length (refreshLog p)) creds")
  case None
  then have "getApiKey env P p =
      getApiKey_catch env P provider (p\<lparr>refreshLog := refreshLog p @ [(P, creds)]\<rparr>)"
    using assms(1-3) by (simp add: getApiKey_def callRefreshToken_def)
  then show ?thesis using assms(4) getApiKey_catch_none by metis
next
  case (Some newCreds)
  let ?q = "p\<lparr>refreshLog := refreshLog p @ [(P, creds)]\<rparr>"
  obtain p2 r where sv: "saveCredentials env P newCreds ?q = (p2, r)"
    by (cases "saveCredentials env P newCreds ?q")
  show ?thesis
  proof (cases r)
    case (Inl e)
    then have "getApiKey env P p = getApiKey_catch env P provider p2"
      using assms(1-3) Some sv by (simp add: getApiKey_def callRefreshToken_def)
    then show ?thesis using assms(4) getApiKey_catch_none by metis
  next
    case (Inr u)
    then have "getApiKey env P p = (p2, Inr (Some (provider_getApiKey provider newCreds)))"
      using assms(1-3) Some sv by (simp add: getApiKey_def callRefreshToken_def)
    with assms(4) have eq: "p1 = p2" "apiKey = provider_getApiKey provider newCreds" by simp_all
    from saveCredentials_ok [of env P newCreds ?q p2 u] sv Inr
    show ?thesis using Some eq by simp
  qed
qed

lemma getApiKey_resume_then_call:
  assumes "getOAuthProvider env P = Some provider"
    and "now env < expires newCreds"
  shows "snd (getApiKey_resume env p (AwaitRefresh P provider (Some newCreds)))
           = AwaitSave P provider newCreds (saveData_ok env (saveCalls p))"
    and "getApiKey_call env P (fst (getApiKey_resume env p (AwaitRefresh P provider (Some newCreds))))
           = (fst (getApiKey_resume env p (AwaitRefresh P provider (Some newCreds))),
              Returned (Inr (Some (provider_getApiKey provider newCreds))))"
    and "\<not> saveData_ok env (saveCalls p) \<Longrightarrow>
           saved (fst (getApiKey_resume env p (AwaitRefresh P provider (Some newCreds)))) = saved p"
  using assms
  by (simp_all add: getApiKey_call_def Let_def setCredentials_def getCredentials_def saveData_def
      AList.update_conv')

text \<open>
  Claim C8, as stated, fails: \<^verbatim>\<open>saveCredentials\<close> puts the refreshed record into the
  settings in memory before it awaits \<^verbatim>\<open>saveData\<close>. While the first caller is still
  suspended at that \<^verbatim>\<open>await\<close>, a second call of \<^verbatim>\<open>getApiKey\<close> finds the new record
  and returns the new key; this happens as well when the pending save is going to fail,
  in which case nothing has been saved at all.
\<close>

theorem getApiKey_observed_before_save_counterexample:
  "snd (run_steps example_env [Call ''anthropic'', Resume 0, Call ''anthropic'']
          (example_plugin [(''anthropic'', example_creds ''r1'' 5)] ''anthropic'', []))
     = [AwaitSave ''anthropic'' example_provider
          ((example_creds ''r1'' 5)\<lparr>access := ''access-1'', expires := 3600005\<rparr>) True,
        Returned (Inr (Some ''access-1''))]
   \<and> snd (run_steps (example_env\<lparr>saveData_ok := (\<lambda>n. False)\<rparr>)
          [Call ''anthropic'', Resume 0, Call ''anthropic'']
          (example_plugin [(''anthropic'', example_creds ''r1'' 5)] ''anthropic'', []))
     = [AwaitSave ''anthropic'' example_provider
          ((example_creds ''r1'' 5)\<lparr>access := ''access-1'', expires := 3600005\<rparr>) False,
        Returned (Inr (Some ''access-1''))]
   \<and> saved (fst (run_steps (example_env\<lparr>saveData_ok := (\<lambda>n. False)\<rparr>)
          [Call ''anthropic'', Resume 0, Call ''anthropic'']
          (example_plugin [(''anthropic'', example_creds ''r1'' 5)] ''anthropic'', []))) = None"
  by (simp add: getApiKey_call_def resume_at_def callRefreshToken_def
      saveData_def setCredentials_def getCredentials_def getOAuthProvider_def Let_def
      example_env_def example_plugin_def example_settings_def example_creds_def example_provider_def)

text \<open>
  Claim C8, amended. The call of \<^verbatim>\<open>getApiKey\<close> that performs the refresh returns the
  new key only after its \<^verbatim>\<open>saveData\<close> call has succeeded: at its return the saved
  data equals the settings in memory, which hold the new record. The new record is in
  memory from the moment the save is issued, so another call of \<^verbatim>\<open>getApiKey\<close> made
  while the first is suspended at the \<^verbatim>\<open>await\<close> of \<^verbatim>\<open>saveData\<close> returns the new key
  (when the new record has not expired) without waiting for the save, whatever its
  outcome; when the save fails, the saved data is still the old one.
\<close>

theorem getApiKey_persist_then_return:
  "(getOAuthProvider env P = Some provider \<and> map_of (getCredentials p) P = Some creds
      \<and> now env \<ge> expires creds \<and> getApiKey env P p = (p1, Inr (Some apiKey))
    \<longrightarrow> (\<exists>newCreds. provider_refreshToken provider (length (refreshLog p)) creds = Some newCreds
           \<and> apiKey = provider_getApiKey provider newCreds
           \<and> saveData_ok env (saveCalls p)
           \<and> saved p1 = Some (settings p1)
           \<and> map_of (oauthCredentials (settings p1)) P = Some newCreds))
   \<and> (getOAuthProvider env P = Some provider \<and> now env < expires refreshed
      \<longrightarrow> snd (getApiKey_resume env q (AwaitRefresh P provider (Some refreshed)))
            = AwaitSave P provider refreshed (saveData_ok env (saveCalls q))
          \<and> getApiKey_call env P (fst (getApiKey_resume env q (AwaitRefresh P provider (Some refreshed))))
            = (fst (getApiKey_resume env q (AwaitRefresh P provider (Some refreshed))),
               Returned (Inr (Some (provider_getApiKey provider refreshed))))
          \<and> (\<not> saveData_ok env (saveCalls q) \<longrightarrow>
                saved (fst (getApiKey_resume env q (AwaitRefresh P provider (Some refreshed)))) = saved q))"
  using getApiKey_refresh_return [of env P provider p creds p1 apiKey]
    getApiKey_resume_then_call [of env P provider refreshed q]
  by blast

theorem getApiKey_persist_then_return_witness:
  "getOAuthProvider example_env ''anthropic'' = Some example_provider
   \<and> map_of (getCredentials (example_plugin [(''anthropic'', example_creds ''r1'' 999000)] ''anthropic''))
        ''anthropic'' = Some (example_creds ''r1'' 999000)
   \<and> now example_env \<ge> expires (example_creds ''r1'' 999000)
   \<and> now example_env < expires ((example_creds ''r1'' 999000)\<lparr>access := ''access-1'', expires := 4599000\<rparr>)
   \<and> snd (getApiKey example_env ''anthropic''
             (example_plugin [(''anthropic'', example_creds ''r1'' 999000)] ''anthropic''))
       = Inr (Some ''access-1'')
   \<and> (\<exists>newCreds. provider_refreshToken example_provider 0 (example_creds ''r1'' 999000) = Some newCreds
          \<and> ''access-1'' = provider_getApiKey example_provider newCreds
          \<and> saved (fst (getApiKey example_env ''anthropic''
                (example_plugin [(''anthropic'', example_creds ''r1'' 999000)] ''anthropic'')))
              = Some (settings (fst (getApiKey example_env ''anthropic''
                  (example_plugin [(''anthropic'', example_creds ''r1'' 999000)] ''anthropic''))))
          \<and> map_of (oauthCredentials (settings (fst (getApiKey example_env ''anthropic''
                (example_plugin [(''anthropic'', example_creds ''r1'' 999000)] ''anthropic'')))))
              ''anthropic'' = Some newCreds)
   \<and> snd (getApiKey_call example_env ''anthropic''
        (fst (getApiKey_resume example_env
               (example_plugin [(''anthropic'', example_creds ''r1'' 999000)] ''anthropic'')
               (AwaitRefresh ''anthropic'' example_provider
                  (Some ((example_creds ''r1'' 999000)\<lparr>access := ''access-1'', expires := 4599000\<rparr>))))))
       = Returned (Inr (Some ''access-1''))"
proof -
  let ?p = "example_plugin [(''anthropic'', example_creds ''r1'' 999000)] ''anthropic''"
  let ?new = "(example_creds ''r1'' 999000)\<lparr>access := ''access-1'', expires := 4599000\<rparr>"
  have a: "getOAuthProvider example_env ''anthropic'' = Some example_provider"
    by (simp add: getOAuthProvider_def example_env_def)
  have b: "map_of (getCredentials ?p) ''anthropic'' = Some (example_creds ''r1'' 999000)"
    by (simp add: getCredentials_def example_plugin_def example_settings_def)
  have c: "now example_env \<ge> expires (example_creds ''r1'' 999000)"
    by (simp add: example_env_def example_creds_def)
  have c2: "now example_env < expires ?new"
    by (simp add: example_env_def)
  have d: "snd (getApiKey example_env ''anthropic'' ?p) = Inr (Some ''access-1'')"
    by (simp add: getApiKey_def callRefreshToken_def saveCredentials_def saveData_def Let_def
        setCredentials_def syncToLightRagServer_def getOAuthProvider_def getCredentials_def
        example_env_def example_plugin_def example_settings_def example_creds_def example_provider_def)
  then have e: "getApiKey example_env ''anthropic'' ?p
                  = (fst (getApiKey example_env ''anthropic'' ?p), Inr (Some ''access-1''))"
    by (metis prod.collapse)
  have f: "length (refreshLog ?p) = 0"
    by (simp add: example_plugin_def)
  have g: "provider_getApiKey example_provider ?new = ''access-1''"
    by (simp add: example_provider_def)
  note inst = getApiKey_persist_then_return
      [of example_env "''anthropic''" example_provider "?p" "example_creds ''r1'' 999000"
          "fst (getApiKey example_env ''anthropic'' ?p)" "''access-1''" "?new" "?p"]
  have first: "\<exists>newCreds. provider_refreshToken example_provider 0 (example_creds ''r1'' 999000) = Some newCreds
          \<and> ''access-1'' = provider_getApiKey example_provider newCreds
          \<and> saved (fst (getApiKey example_env ''anthropic'' ?p))
              = Some (settings (fst (getApiKey example_env ''anthropic'' ?p)))
          \<and> map_of (oauthCredentials (settings (fst (getApiKey example_env ''anthropic'' ?p))))
              ''anthropic'' = Some newCreds"
    using inst a b c e unfolding f by blast
  have second: "snd (getApiKey_call example_env ''anthropic''
        (fst (getApiKey_resume example_env ?p (AwaitRefresh ''anthropic'' example_provider (Some ?new)))))
       = Returned (Inr (Some ''access-1''))"
    using inst a c2 by (simp add: g)
  show ?thesis
    using a b c c2 d first second by blast
qed

lemma rag_Notice_fst [simp]:
  "host (rag_Notice msg w) = host w"
  "requests (rag_Notice msg w) = requests w"
  "forceRefreshCalls (rag_Notice msg w) = forceRefreshCalls w"
  "serverRestarts (rag_Notice msg w) = serverRestarts w"
  by (simp_all add: rag_Notice_def)

lemma getRequestHeaders_counts:
  "getRequestHeaders eng w = (w1, headers) \<Longrightarrow>
     requests w1 = requests w \<and> forceRefreshCalls w1 = forceRefreshCalls w
     \<and> serverRestarts w1 = serverRestarts w"
  by (auto simp: getRequestHeaders_def Let_def split: option.splits prod.splits sum.splits)

lemma performQuery_counts:
  assumes "performQuery env eng overrideHeaders w = (w1, res)"
  shows "length (requests w1) = Suc (length (requests w))"
    and "forceRefreshCalls w1 = forceRefreshCalls w"
    and "serverRestarts w1 = serverRestarts w"
proof -
  obtain w0 headers where pre:
    "(case overrideHeaders of Some h \<Rightarrow> (w, h) | None \<Rightarrow> getRequestHeaders eng w) = (w0, headers)"
    by (cases "case overrideHeaders of Some h \<Rightarrow> (w, h) | None \<Rightarrow> getRequestHeaders eng w")
  have same: "requests w0 = requests w \<and> forceRefreshCalls w0 = forceRefreshCalls w
              \<and> serverRestarts w0 = serverRestarts w"
    using pre getRequestHeaders_counts [of eng w w0 headers] by (cases overrideHeaders) auto
  have "length (requests w1) = Suc (length (requests w0)) \<and> forceRefreshCalls w1 = forceRefreshCalls w0
        \<and> serverRestarts w1 = serverRestarts w0"
    using assms unfolding performQuery_def pre
    by (auto simp: Let_def split: http_reply.splits if_splits)
  with same show "length (requests w1) = Suc (length (requests w))"
    and "forceRefreshCalls w1 = forceRefreshCalls w"
    and "serverRestarts w1 = serverRestarts w"
    by simp_all
qed

lemma performQuery_requests:
  assumes "performQuery env eng overrideHeaders w = (w1, res)"
  shows "requests w1 = requests w @ [last (requests w1)]"
proof -
  obtain w0 headers where pre:
    "(case overrideHeaders of Some h \<Rightarrow> (w, h) | None \<Rightarrow> getRequestHeaders eng w) = (w0, headers)"
    by (cases "case overrideHeaders of Some h \<Rightarrow> (w, h) | None \<Rightarrow> getRequestHeaders eng w")
  have same: "requests w0 = requests w"
    using pre getRequestHeaders_counts [of eng w w0 headers] by (cases overrideHeaders) auto
  have "requests w1 = requests w0 @ [headers]"
    using assms unfolding performQuery_def pre
    by (auto simp: Let_def split: http_reply.splits if_splits)
  with same show ?thesis by simp
qed

lemma performQuery_override:
  "requests (fst (performQuery env eng (Some h) w)) = requests w @ [h]"
  "snd (performQuery env eng (Some h) w) =
     (case lightRagServer env (length (requests w)) h of
        Unreachable msg \<Rightarrow> Inl (QueryError None msg)
      | Response status body \<Rightarrow>
          if status \<ge> 400
          then Inl (QueryError (if status = 401 \<or> status = 403 then Some status else None)
                      (statusMessage status body))
          else Inr body)"
  by (auto simp: performQuery_def Let_def split: http_reply.splits)

lemma refreshFailed_fst [simp]:
  "requests (fst (refreshFailed firstError w)) = requests w"
  "forceRefreshCalls (fst (refreshFailed firstError w)) = forceRefreshCalls w"
  "snd (refreshFailed firstError w) = Inl firstError"
  by (simp_all add: refreshFailed_def)

lemma processQuery_fst:
  "fst (processQuery env eng w) = fst (processQuery_data env eng w)"
  by (simp add: processQuery_def split: prod.splits sum.splits)

lemma processQuery_snd:
  "snd (processQuery env eng w) =
     (case snd (processQuery_data env eng w) of Inl err \<Rightarrow> errorDoc err | Inr data \<Rightarrow> GraphResults data)"
  by (simp add: processQuery_def split: prod.splits sum.splits)

lemma processQuery_data_auth:
  assumes "performQuery env eng None w = (w1, Inl firstError)"
    and "statusCode firstError = Some 401 \<or> statusCode firstError = Some 403"
    and "oauthForceRefresh eng = Some forceRefresh"
    and "forceRefresh (host w1) = (h2, r)"
  shows "processQuery_data env eng w =
     (let w2 = w1\<lparr>host := h2, forceRefreshCalls := Suc (forceRefreshCalls w1)\<rparr>
      in case r of
           Inl e \<Rightarrow> refreshFailed firstError w2
         | Inr None \<Rightarrow>
             refreshFailed firstError
               (rag_Notice ''OAuth session expired. Please re-login via the OAuth command.'' w2)
         | Inr (Some freshToken) \<Rightarrow>
             (case performQuery env eng (Some (refreshedHeaders freshToken)) w2 of
                (w3, Inr data) \<Rightarrow> (w3, Inr data)
              | (w3, Inl e) \<Rightarrow> refreshFailed firstError w3))"
  using assms by (simp add: processQuery_data_def)


lemma auth_failure_force_refresh_some:
  assumes "performQuery env eng None w = (w1, Inl firstError)"
    and "statusCode firstError = Some 401 \<or> statusCode firstError = Some 403"
    and "oauthForceRefresh eng = Some forceRefresh"
    and "forceRefresh (host w1) = (h2, Inr (Some freshToken))"
  shows "requests (fst (processQuery_data env eng w)) = requests w1 @ [refreshedHeaders freshToken]"
    and "forceRefreshCalls (fst (processQuery_data env eng w)) = Suc (forceRefreshCalls w1)"
    and "snd (processQuery_data env eng w) =
           (case lightRagServer env (length (requests w1)) (refreshedHeaders freshToken) of
              Unreachable msg \<Rightarrow> Inl firstError
            | Response status body \<Rightarrow> if status \<ge> 400 then Inl firstError else Inr body)"
proof -
  let ?w2 = "w1\<lparr>host := h2, forceRefreshCalls := Suc (forceRefreshCalls w1)\<rparr>"
  let ?retry = "performQuery env eng (Some (refreshedHeaders freshToken)) ?w2"
  have pq: "processQuery_data env eng w =
      (case ?retry of (w3, Inr data) \<Rightarrow> (w3, Inr data) | (w3, Inl e) \<Rightarrow> refreshFailed firstError w3)"
    using processQuery_data_auth [OF assms] by (simp add: Let_def)
  obtain w3 res where retry: "?retry = (w3, res)" by (cases ?retry)
  have req: "requests w3 = requests w1 @ [refreshedHeaders freshToken]"
    using performQuery_override(1) [of env eng "refreshedHeaders freshToken" ?w2] retry by simp
  have cnt: "forceRefreshCalls w3 = Suc (forceRefreshCalls w1)"
    using performQuery_counts(2) [OF retry] by simp
  have res: "res = (case lightRagServer env (length (requests w1)) (refreshedHeaders freshToken) of
        Unreachable msg \<Rightarrow> Inl (QueryError None msg)
      | Response status body \<Rightarrow>
          if status \<ge> 400
          then Inl (QueryError (if status = 401 \<or> status = 403 then Some status else None)
                      (statusMessage status body))
          else Inr body)"
    using performQuery_override(2) [of env eng "refreshedHeaders freshToken" ?w2] retry by simp
  show "requests (fst (processQuery_data env eng w)) = requests w1 @ [refreshedHeaders freshToken]"
    using pq retry req by (cases res) simp_all
  show "forceRefreshCalls (fst (processQuery_data env eng w)) = Suc (forceRefreshCalls w1)"
    using pq retry cnt by (cases res) simp_all
  show "snd (processQuery_data env eng w) =
           (case lightRagServer env (length (requests w1)) (refreshedHeaders freshToken) of
              Unreachable msg \<Rightarrow> Inl firstError
            | Response status body \<Rightarrow> if status \<ge> 400 then Inl firstError else Inr body)"
    using pq retry res by (auto split: http_reply.splits)
qed

lemma auth_failure_force_refresh_absent:
  assumes "performQuery env eng None w = (w1, Inl firstError)"
    and "statusCode firstError = Some 401 \<or> statusCode firstError = Some 403"
    and "oauthForceRefresh eng = Some forceRefresh"
    and "forceRefresh (host w1) = (h2, r)"
    and "\<forall>freshToken. r \<noteq> Inr (Some freshToken)"
  shows "requests (fst (processQuery_data env eng w)) = requests w1"
    and "forceRefreshCalls (fst (processQuery_data env eng w)) = Suc (forceRefreshCalls w1)"
    and "snd (processQuery_data env eng w) = Inl firstError"
  using processQuery_data_auth [OF assms(1-4)] assms(5)
  by (auto simp: Let_def split: sum.splits option.splits)

text \<open>
  Claim C4. In the engine as the plugin constructs it, when the first request fails with
  401 or 403, the force-refresh is invoked exactly once. If it yields a fresh token, exactly
  one more request is sent, with the headers rebuilt from that token, and its outcome
  decides: a response below 400 is the result, anything else surfaces the first error.
  If it yields nothing (or rejects), no further request is sent and the first error is
  surfaced. In every case the requests sent are the first one and at most the one retry.
\<close>

theorem auth_failure_retries_once:
  assumes "performQuery env (getRAGEngine env) None w = (w1, Inl firstError)"
    and "statusCode firstError = Some 401 \<or> statusCode firstError = Some 403"
    and "forceRefreshActiveToken env (host w1) = (h2, r)"
  shows "forceRefreshCalls (fst (processQuery env (getRAGEngine env) w)) = Suc (forceRefreshCalls w)
    \<and> requests w1 = requests w @ [last (requests w1)]
    \<and> (\<forall>freshToken. r = Inr (Some freshToken) \<longrightarrow>
          requests (fst (processQuery env (getRAGEngine env) w)) = requests w1 @ [refreshedHeaders freshToken]
          \<and> snd (processQuery env (getRAGEngine env) w) =
              (case lightRagServer env (length (requests w1)) (refreshedHeaders freshToken) of
                 Unreachable msg \<Rightarrow> errorDoc firstError
               | Response status body \<Rightarrow>
                   if status \<ge> 400 then errorDoc firstError else GraphResults body))
    \<and> ((\<forall>freshToken. r \<noteq> Inr (Some freshToken)) \<longrightarrow>
          requests (fst (processQuery env (getRAGEngine env) w)) = requests w1
          \<and> snd (processQuery env (getRAGEngine env) w) = errorDoc firstError)"
proof -
  let ?eng = "getRAGEngine env"
  have fr: "oauthForceRefresh ?eng = Some (forceRefreshActiveToken env)"
    by (simp add: getRAGEngine_def)
  have c1: "forceRefreshCalls w1 = forceRefreshCalls w"
    by (rule performQuery_counts(2) [OF assms(1)])
  have calls: "forceRefreshCalls (fst (processQuery_data env ?eng w)) = Suc (forceRefreshCalls w1)"
  proof (cases "\<exists>freshToken. r = Inr (Some freshToken)")
    case True
    then show ?thesis using auth_failure_force_refresh_some(2) [OF assms(1,2) fr] assms(3) by auto
  next
    case False
    then show ?thesis using auth_failure_force_refresh_absent(2) [OF assms(1,2) fr assms(3)] by simp
  qed
  have one: "requests w1 = requests w @ [last (requests w1)]"
    by (rule performQuery_requests [OF assms(1)])
  show ?thesis
    using calls c1 one
      auth_failure_force_refresh_some(1,3) [OF assms(1,2) fr]
      auth_failure_force_refresh_absent(1,3) [OF assms(1,2) fr assms(3)]
      assms(3)
    by (auto simp: processQuery_fst processQuery_snd split: http_reply.splits)
qed

lemmas example_defs =
  example_server_env_def example_env_def example_plugin_def example_plugin_autostart_def
  example_settings_def example_creds_def example_provider_def example_rag_def

lemmas manager_defs =
  getApiKey_def getActiveLightRagApiKey_def forceRefreshActiveToken_def callRefreshToken_def
  saveCredentials_def clearCredentials_def saveData_def setCredentials_def getCredentials_def
  syncToLightRagServer_def getOAuthProvider_def Notice_def Let_def

lemmas engine_defs =
  getRAGEngine_def getRequestHeaders_def performQuery_def refreshedHeaders_def

text \<open>
  Two rejections in a row: the first request carries the stored token, the force-refresh
  delivers a new one, the single retry carries it and is rejected as well, and the caller
  receives the error of the first request.
\<close>

theorem auth_failure_retries_once_witness:
  "snd (performQuery (example_server_env (\<lambda>n. Response 401 ''denied''))
          (getRAGEngine (example_server_env (\<lambda>n. Response 401 ''denied''))) None
          (example_rag (example_plugin [(''anthropic'', example_creds ''r1'' 2000000)] ''anthropic'')))
     = Inl (QueryError (Some 401) (statusMessage 401 ''denied''))
   \<and> snd (forceRefreshActiveToken (example_server_env (\<lambda>n. Response 401 ''denied''))
          (host (fst (performQuery (example_server_env (\<lambda>n. Response 401 ''denied''))
             (getRAGEngine (example_server_env (\<lambda>n. Response 401 ''denied''))) None
             (example_rag (example_plugin [(''anthropic'', example_creds ''r1'' 2000000)] ''anthropic''))))))
       = Inr (Some (''anthropic'', ''access-1''))
   \<and> forceRefreshCalls (fst (processQuery (example_server_env (\<lambda>n. Response 401 ''denied''))
          (getRAGEngine (example_server_env (\<lambda>n. Response 401 ''denied'')))
          (example_rag (example_plugin [(''anthropic'', example_creds ''r1'' 2000000)] ''anthropic'')))) = 1
   \<and> requests (fst (processQuery (example_server_env (\<lambda>n. Response 401 ''denied''))
          (getRAGEngine (example_server_env (\<lambda>n. Response 401 ''denied'')))
          (example_rag (example_plugin [(''anthropic'', example_creds ''r1'' 2000000)] ''anthropic''))))
       = [[(''Content-Type'', ''application/json''), (''X-OAuth-Provider'', ''anthropic''),
           (''X-OAuth-Token'', ''access-0'')],
          [(''Content-Type'', ''application/json''), (''X-OAuth-Provider'', ''anthropic''),
           (''X-OAuth-Token'', ''access-1'')]]
   \<and> snd (processQuery (example_server_env (\<lambda>n. Response 401 ''denied''))
          (getRAGEngine (example_server_env (\<lambda>n. Response 401 ''denied'')))
          (example_rag (example_plugin [(''anthropic'', example_creds ''r1'' 2000000)] ''anthropic'')))
       = errorDoc (QueryError (Some 401) (statusMessage 401 ''denied''))"
proof -
  let ?env = "example_server_env (\<lambda>n. Response 401 ''denied'')"
  let ?w = "example_rag (example_plugin [(''anthropic'', example_creds ''r1'' 2000000)] ''anthropic'')"
  let ?first = "performQuery ?env (getRAGEngine ?env) None ?w"
  let ?err = "QueryError (Some 401) (statusMessage 401 ''denied'')"
  have req1: "requests (fst ?first) =
      [[(''Content-Type'', ''application/json''), (''X-OAuth-Provider'', ''anthropic''),
        (''X-OAuth-Token'', ''access-0'')]]"
    by (simp add: engine_defs manager_defs example_defs)
  have a: "snd ?first = Inl ?err"
    by (simp add: engine_defs manager_defs example_defs)
  then have a': "?first = (fst ?first, Inl ?err)"
    by (metis prod.collapse)
  have b: "statusCode ?err = Some 401 \<or> statusCode ?err = Some 403"
    by simp
  have c: "snd (forceRefreshActiveToken ?env (host (fst ?first))) = Inr (Some (''anthropic'', ''access-1''))"
    by (simp add: engine_defs manager_defs example_defs)
  then have c': "forceRefreshActiveToken ?env (host (fst ?first))
      = (fst (forceRefreshActiveToken ?env (host (fst ?first))), Inr (Some (''anthropic'', ''access-1'')))"
    by (metis prod.collapse)
  have srv: "lightRagServer ?env n h = Response 401 ''denied''" for n h
    by (simp add: example_defs)
  have zero: "forceRefreshCalls ?w = 0"
    by (simp add: example_defs)
  from auth_failure_retries_once [OF a' b c'] a c show ?thesis
    by (simp add: req1 srv zero refreshedHeaders_def)
qed

text \<open>
  Claim C7, as stated, fails: with the automatic server start enabled, a first response
  with status 500 is not handed to the caller; the engine restarts the server, sends the
  request again and returns the answer of the second response.
\<close>

theorem non_auth_failure_counterexample:
  "snd (performQuery (example_server_env (\<lambda>n. if n = 0 then Response 500 ''busy'' else Response 200 ''answer''))
          (getRAGEngine (example_server_env (\<lambda>n. if n = 0 then Response 500 ''busy'' else Response 200 ''answer'')))
          None (example_rag (example_plugin_autostart [] '''')))
     = Inl (QueryError None (statusMessage 500 ''busy''))
   \<and> snd (processQuery (example_server_env (\<lambda>n. if n = 0 then Response 500 ''busy'' else Response 200 ''answer''))
          (getRAGEngine (example_server_env (\<lambda>n. if n = 0 then Response 500 ''busy'' else Response 200 ''answer'')))
          (example_rag (example_plugin_autostart [] '''')))
     = GraphResults ''answer''
   \<and> requests (fst (processQuery (example_server_env (\<lambda>n. if n = 0 then Response 500 ''busy'' else Response 200 ''answer''))
          (getRAGEngine (example_server_env (\<lambda>n. if n = 0 then Response 500 ''busy'' else Response 200 ''answer'')))
          (example_rag (example_plugin_autostart [] ''''))))
     = [[(''Content-Type'', ''application/json'')], [(''Content-Type'', ''application/json'')]]
   \<and> serverRestarts (fst (processQuery (example_server_env (\<lambda>n. if n = 0 then Response 500 ''busy'' else Response 200 ''answer''))
          (getRAGEngine (example_server_env (\<lambda>n. if n = 0 then Response 500 ''busy'' else Response 200 ''answer'')))
          (example_rag (example_plugin_autostart [] '''')))) = 1"
  by (simp add: processQuery_def processQuery_data_def engine_defs manager_defs example_defs
      toLowerCase_def lower_char_def rag_Notice_def)

text \<open>
  Claim C7, amended. When the first request fails without a 401 or 403 status, the
  force-refresh is never invoked. If \<^verbatim>\<open>enableAutoStartServer\<close> is off, the failure is
  handed to the caller directly and nothing more is sent; if it is on, the engine raises
  its wake-up notice, invokes the restart callback once, and the outcome is that of
  sending the request once more.
\<close>

theorem non_auth_failure_no_force_refresh:
  assumes "performQuery env eng None w = (w1, Inl firstError)"
    and "statusCode firstError \<noteq> Some 401" and "statusCode firstError \<noteq> Some 403"
  shows "forceRefreshCalls (fst (processQuery env eng w)) = forceRefreshCalls w
    \<and> (\<not> enableAutoStartServer (settings (host w1)) \<longrightarrow>
          processQuery env eng w = (w1, errorDoc firstError))
    \<and> (enableAutoStartServer (settings (host w1)) \<longrightarrow>
          processQuery_data env eng w
            = performQuery env eng None
                ((rag_Notice ''Waking up the system...'' w1)
                   \<lparr>serverRestarts := Suc (serverRestarts w1)\<rparr>))"
proof -
  have c1: "forceRefreshCalls w1 = forceRefreshCalls w"
    by (rule performQuery_counts(2) [OF assms(1)])
  let ?woken = "(rag_Notice ''Waking up the system...'' w1)\<lparr>serverRestarts := Suc (serverRestarts w1)\<rparr>"
  let ?again = "performQuery env eng None ?woken"
  have c2: "forceRefreshCalls (fst ?again) = forceRefreshCalls w1"
    using performQuery_counts(2) [of env eng None ?woken "fst ?again" "snd ?again"] by simp
  have pq: "processQuery_data env eng w =
      (if enableAutoStartServer (settings (host w1)) then ?again else (w1, Inl firstError))"
    using assms by (simp add: processQuery_data_def)
  show ?thesis
    using c1 c2 pq by (simp add: processQuery_fst) (simp add: processQuery_def)
qed

text \<open>
  A server that answers 500: with the automatic start off the caller receives that
  error; in both settings the force-refresh count stays at zero.
\<close>

theorem non_auth_failure_no_force_refresh_witness:
  "snd (performQuery (example_server_env (\<lambda>n. Response 500 ''busy''))
          (getRAGEngine (example_server_env (\<lambda>n. Response 500 ''busy''))) None
          (example_rag (example_plugin [] '''')))
     = Inl (QueryError None (statusMessage 500 ''busy''))
   \<and> \<not> enableAutoStartServer (settings (host (fst (performQuery (example_server_env (\<lambda>n. Response 500 ''busy''))
          (getRAGEngine (example_server_env (\<lambda>n. Response 500 ''busy''))) None
          (example_rag (example_plugin [] ''''))))))
   \<and> forceRefreshCalls (fst (processQuery (example_server_env (\<lambda>n. Response 500 ''busy''))
          (getRAGEngine (example_server_env (\<lambda>n. Response 500 ''busy'')))
          (example_rag (example_plugin [] '''')))) = 0
   \<and> snd (processQuery (example_server_env (\<lambda>n. Response 500 ''busy''))
          (getRAGEngine (example_server_env (\<lambda>n. Response 500 ''busy'')))
          (example_rag (example_plugin [] '''')))
       = errorDoc (QueryError None (statusMessage 500 ''busy''))
   \<and> enableAutoStartServer (settings (host (fst (performQuery (example_server_env (\<lambda>n. Response 500 ''busy''))
          (getRAGEngine (example_server_env (\<lambda>n. Response 500 ''busy''))) None
          (example_rag (example_plugin_autostart [] ''''))))))
   \<and> forceRefreshCalls (fst (processQuery (example_server_env (\<lambda>n. Response 500 ''busy''))
          (getRAGEngine (example_server_env (\<lambda>n. Response 500 ''busy'')))
          (example_rag (example_plugin_autostart [] '''')))) = 0"
proof -
  let ?env = "example_server_env (\<lambda>n. Response 500 ''busy'')"
  let ?err = "QueryError None (statusMessage 500 ''busy'')"
  let ?off = "example_rag (example_plugin [] '''')"
  let ?on = "example_rag (example_plugin_autostart [] '''')"
  let ?first_off = "performQuery ?env (getRAGEngine ?env) None ?off"
  let ?first_on = "performQuery ?env (getRAGEngine ?env) None ?on"
  have a: "snd ?first_off = Inl ?err"
    by (simp add: engine_defs manager_defs example_defs toLowerCase_def lower_char_def rag_Notice_def)
  then have a': "?first_off = (fst ?first_off, Inl ?err)"
    by (metis prod.collapse)
  have b: "snd ?first_on = Inl ?err"
    by (simp add: engine_defs manager_defs example_defs toLowerCase_def lower_char_def rag_Notice_def)
  then have b': "?first_on = (fst ?first_on, Inl ?err)"
    by (metis prod.collapse)
  have n: "statusCode ?err \<noteq> Some 401" "statusCode ?err \<noteq> Some 403"
    by simp_all
  have off: "\<not> enableAutoStartServer (settings (host (fst ?first_off)))"
    by (simp add: engine_defs manager_defs example_defs toLowerCase_def lower_char_def rag_Notice_def)
  have on: "enableAutoStartServer (settings (host (fst ?first_on)))"
    by (simp add: engine_defs manager_defs example_defs toLowerCase_def lower_char_def rag_Notice_def)
  have zero: "forceRefreshCalls ?off = 0" "forceRefreshCalls ?on = 0"
    by (simp_all add: example_defs)
  have r1: "forceRefreshCalls (fst (processQuery ?env (getRAGEngine ?env) ?off)) = 0"
    using non_auth_failure_no_force_refresh [OF a' n] zero by simp
  have r2: "snd (processQuery ?env (getRAGEngine ?env) ?off) = errorDoc ?err"
    using non_auth_failure_no_force_refresh [OF a' n] off by simp
  have r3: "forceRefreshCalls (fst (processQuery ?env (getRAGEngine ?env) ?on)) = 0"
    using non_auth_failure_no_force_refresh [OF b' n] zero by simp
  show ?thesis
    using a off on r1 r2 r3 by blast
qed

lemma getApiKey_call_expired:
  assumes "getOAuthProvider env P = Some provider"
    and "map_of (getCredentials p) P = Some creds"
    and "now env \<ge> expires creds"
  shows "getApiKey_call env P p =
           (p\<lparr>refreshLog := refreshLog p @ [(P, creds)]\<rparr>,
            AwaitRefresh P provider (provider_refreshToken provider (length (refreshLog p)) creds))"
  using assms by (simp add: getApiKey_call_def callRefreshToken_def)

lemma call_all_expired:
  assumes "getOAuthProvider env P = Some provider"
    and "map_of (getCredentials p) P = Some creds"
    and "now env \<ge> expires creds"
  shows "call_all env (replicate N P) p =
           (p\<lparr>refreshLog := refreshLog p @ replicate N (P, creds)\<rparr>,
            map (\<lambda>i. AwaitRefresh P provider
                        (provider_refreshToken provider (length (refreshLog p) + i) creds)) [0..<N])"
  using assms(2)
proof (induction N arbitrary: p)
  case 0
  then show ?case by simp
next
  case (Suc N)
  let ?p1 = "p\<lparr>refreshLog := refreshLog p @ [(P, creds)]\<rparr>"
  have rec: "map_of (getCredentials ?p1) P = Some creds"
    using Suc.prems by (simp add: getCredentials_def)
  have first: "getApiKey_call env P p =
      (?p1, AwaitRefresh P provider (provider_refreshToken provider (length (refreshLog p)) creds))"
    by (rule getApiKey_call_expired [OF assms(1) Suc.prems assms(3)])
  have shift: "map (\<lambda>i. AwaitRefresh P provider
                        (provider_refreshToken provider (length (refreshLog p) + i) creds)) [0..<Suc N]
      = AwaitRefresh P provider (provider_refreshToken provider (length (refreshLog p)) creds)
        # map (\<lambda>i. AwaitRefresh P provider
                        (provider_refreshToken provider (Suc (length (refreshLog p)) + i) creds)) [0..<N]"
    by (simp add: upt_conv_Cons map_Suc_upt [symmetric] del: upt_Suc)
  show ?case
    unfolding shift
    by (simp add: first Suc.IH [OF rec] replicate_app_Cons_same)
qed

lemma clearCredentials_begin_log [simp]:
  "refreshLog (fst (clearCredentials_begin env providerId provider p)) = refreshLog p"
  by (simp add: clearCredentials_begin_def Let_def setCredentials_def saveData_def split: prod.splits)

lemma getApiKey_resume_log [simp]:
  "refreshLog (fst (getApiKey_resume env p t)) = refreshLog p"
  by (cases "(env, p, t)" rule: getApiKey_resume.cases)
     (simp_all add: Let_def setCredentials_def saveData_def syncToLightRagServer_def Notice_def
        split: prod.splits)

lemma resume_at_log [simp]:
  "refreshLog (fst (resume_at env i st)) = refreshLog (fst st)"
proof (cases st)
  case (Pair p ts)
  show ?thesis
  proof (cases "i < length ts")
    case True
    obtain p1 t where r: "getApiKey_resume env p (ts ! i) = (p1, t)"
      by (cases "getApiKey_resume env p (ts ! i)")
    have "refreshLog p1 = refreshLog p"
      using getApiKey_resume_log [of env p "ts ! i"] r by simp
    then show ?thesis using Pair True r by (simp add: resume_at_def)
  next
    case False
    then show ?thesis using Pair by (simp add: resume_at_def)
  qed
qed

lemma run_schedule_log [simp]:
  "refreshLog (fst (run_schedule env sched st)) = refreshLog (fst st)"
  by (induction sched arbitrary: st) simp_all

text \<open>
  Claim C1, as stated, fails: two concurrent calls of \<^verbatim>\<open>getApiKey\<close> on an expired record
  invoke \<^verbatim>\<open>refreshToken\<close> twice, and with a provider that issues a new token per call the
  two callers return different keys.
\<close>

theorem concurrent_getApiKey_counterexample:
  "refreshLog (fst (getApiKey_concurrent example_env [''anthropic'', ''anthropic''] [0, 1, 0, 1]
       (example_plugin [(''anthropic'', example_creds ''r1'' 5)] ''anthropic'')))
     = [(''anthropic'', example_creds ''r1'' 5), (''anthropic'', example_creds ''r1'' 5)]
   \<and> snd (getApiKey_concurrent example_env [''anthropic'', ''anthropic''] [0, 1, 0, 1]
       (example_plugin [(''anthropic'', example_creds ''r1'' 5)] ''anthropic''))
     = [Returned (Inr (Some ''access-1'')), Returned (Inr (Some ''access-2''))]"
  by (simp add: getApiKey_concurrent_def getApiKey_call_def resume_at_def callRefreshToken_def
      saveData_def setCredentials_def getCredentials_def syncToLightRagServer_def
      getOAuthProvider_def Let_def
      example_env_def example_plugin_def example_settings_def example_creds_def example_provider_def)

text \<open>
  Claim C1, amended. For a registered provider with an expired stored record, \<open>N\<close>
  concurrent calls of \<^verbatim>\<open>getApiKey\<close> invoke \<^verbatim>\<open>refreshToken\<close> \<open>N\<close> times on that
  record, once per caller and whatever the order in which the callers are resumed, and
  each caller is suspended on the result of its own invocation: no call waits for a
  refresh that is already in flight.
\<close>

theorem concurrent_getApiKey_refreshes_per_caller:
  assumes "getOAuthProvider env P = Some provider"
    and "map_of (getCredentials p) P = Some creds"
    and "now env \<ge> expires creds"
  shows "refreshLog (fst (getApiKey_concurrent env (replicate N P) sched p))
           = refreshLog p @ replicate N (P, creds)
    \<and> snd (call_all env (replicate N P) p)
           = map (\<lambda>i. AwaitRefresh P provider
                        (provider_refreshToken provider (length (refreshLog p) + i) creds)) [0..<N]"
  by (simp add: getApiKey_concurrent_def call_all_expired [OF assms])

theorem concurrent_getApiKey_refreshes_per_caller_witness:
  "getOAuthProvider example_env ''anthropic'' = Some example_provider
   \<and> map_of (getCredentials (example_plugin [(''anthropic'', example_creds ''r1'' 5)] ''anthropic''))
        ''anthropic'' = Some (example_creds ''r1'' 5)
   \<and> now example_env \<ge> expires (example_creds ''r1'' 5)
   \<and> refreshLog (fst (getApiKey_concurrent example_env (replicate 3 ''anthropic'') [2, 0, 1, 1, 0]
         (example_plugin [(''anthropic'', example_creds ''r1'' 5)] ''anthropic'')))
       = replicate 3 (''anthropic'', example_creds ''r1'' 5)"
proof -
  let ?p = "example_plugin [(''anthropic'', example_creds ''r1'' 5)] ''anthropic''"
  have a: "getOAuthProvider example_env ''anthropic'' = Some example_provider"
    by (simp add: getOAuthProvider_def example_env_def)
  have b: "map_of (getCredentials ?p) ''anthropic'' = Some (example_creds ''r1'' 5)"
    by (simp add: getCredentials_def example_plugin_def example_settings_def)
  have c: "now example_env \<ge> expires (example_creds ''r1'' 5)"
    by (simp add: example_env_def example_creds_def)
  have d: "refreshLog ?p = []"
    by (simp add: example_plugin_def)
  from concurrent_getApiKey_refreshes_per_caller [OF a b c, of 3 "[2, 0, 1, 1, 0]"] a b c
  show ?thesis by (simp add: d)
qed

text \<open>
  A single caller resumed until it returns does what the sequential \<open>getApiKey\<close> does.
\<close>

lemma getApiKey_alone:
  "getApiKey_concurrent env [P] [0, 0, 0] p =
     (fst (getApiKey env P p), [Returned (snd (getApiKey env P p))])"
  by (simp add: getApiKey_concurrent_def getApiKey_call_def getApiKey_def getApiKey_catch_def
      resume_at_def callRefreshToken_def saveCredentials_def clearCredentials_def
      clearCredentials_begin_def saveData_def setCredentials_def getCredentials_def
      syncToLightRagServer_def Notice_def Let_def
      split: option.splits)

lemma settings_agree:
  assumes "(s :: NeuralComposerSettings)\<lparr>oauthCredentials := []\<rparr> = t\<lparr>oauthCredentials := []\<rparr>"
  shows "t = s\<lparr>oauthCredentials := oauthCredentials t\<rparr>"
proof -
  have "t = (t\<lparr>oauthCredentials := []\<rparr>)\<lparr>oauthCredentials := oauthCredentials t\<rparr>"
    by simp
  also have "\<dots> = (s\<lparr>oauthCredentials := []\<rparr>)\<lparr>oauthCredentials := oauthCredentials t\<rparr>"
    by (simp only: assms [symmetric])
  also have "\<dots> = s\<lparr>oauthCredentials := oauthCredentials t\<rparr>"
    by simp
  finally show ?thesis .
qed

lemma generateEnvConfig_reads:
  assumes "(settings p)\<lparr>oauthCredentials := []\<rparr> = (settings q)\<lparr>oauthCredentials := []\<rparr>"
    and "map_of (oauthCredentials (settings p)) (lightRagOAuthProvider (settings p))
         = map_of (oauthCredentials (settings q)) (lightRagOAuthProvider (settings q))"
  shows "generateEnvConfig p = generateEnvConfig q"
proof -
  have eq: "settings q = (settings p)\<lparr>oauthCredentials := oauthCredentials (settings q)\<rparr>"
    by (rule settings_agree [OF assms(1)])
  have act: "lightRagOAuthProvider (settings q) = lightRagOAuthProvider (settings p)"
    by (subst eq) simp
  have oauth: "env_oauth (settings q) = env_oauth (settings p)"
    using assms(2) by (simp add: env_oauth_def act)
  have rest: "env_header (settings q) = env_header (settings p)"
    "env_rerank (settings q) = env_rerank (settings p)"
    "env_entity_types (settings q) = env_entity_types (settings p)"
    "env_custom (settings q) = env_custom (settings p)"
    by (subst eq, simp add: env_header_def env_rerank_def env_entity_types_def env_custom_def Let_def)+
  have fields: "lightRagWorkDir (settings q) = lightRagWorkDir (settings p)"
    "lightRagModelId (settings q) = lightRagModelId (settings p)"
    "chatModelId (settings q) = chatModelId (settings p)"
    "lightRagEmbeddingModelId (settings q) = lightRagEmbeddingModelId (settings p)"
    "embeddingModelId (settings q) = embeddingModelId (settings p)"
    "chatModels (settings q) = chatModels (settings p)"
    "embeddingModels (settings q) = embeddingModels (settings p)"
    "providers (settings q) = providers (settings p)"
    by (subst eq, simp)+
  show ?thesis
    unfolding generateEnvConfig_def Let_def oauth rest fields by (rule refl)
qed

text \<open>
  Claim C9. The generated text is a function of the settings: two plugin states with the
  same settings (the credential store is part of them) yield the same text, whatever else
  differs between them. Of the credential store only the record of the active provider is
  read, so settings that agree outside the store and on that record yield the same text
  as well.
\<close>

theorem generateEnvConfig_deterministic:
  "(settings p = settings q \<longrightarrow> generateEnvConfig p = generateEnvConfig q)
   \<and> ((settings p)\<lparr>oauthCredentials := []\<rparr> = (settings q)\<lparr>oauthCredentials := []\<rparr>
        \<and> map_of (oauthCredentials (settings p)) (lightRagOAuthProvider (settings p))
            = map_of (oauthCredentials (settings q)) (lightRagOAuthProvider (settings q))
      \<longrightarrow> generateEnvConfig p = generateEnvConfig q)"
  using generateEnvConfig_reads [of p q] by (simp add: generateEnvConfig_def)

text \<open>
  The same settings in two plugin states that differ in their counters and notices, and
  two stores that differ in the record of a provider that is not the active one.
\<close>

theorem generateEnvConfig_deterministic_witness:
  "settings (example_plugin [(''anthropic'', example_creds ''r1'' 5), (''acme'', example_creds ''r2'' 7)] ''anthropic'')
     = settings ((example_plugin [(''anthropic'', example_creds ''r1'' 5), (''acme'', example_creds ''r2'' 7)] ''anthropic'')
                   \<lparr>saveCalls := 3, notices := [''Logged out from Acme'']\<rparr>)
   \<and> generateEnvConfig (example_plugin [(''anthropic'', example_creds ''r1'' 5), (''acme'', example_creds ''r2'' 7)] ''anthropic'')
     = generateEnvConfig ((example_plugin [(''anthropic'', example_creds ''r1'' 5), (''acme'', example_creds ''r2'' 7)] ''anthropic'')
                   \<lparr>saveCalls := 3, notices := [''Logged out from Acme'']\<rparr>)
   \<and> (settings (example_plugin [(''anthropic'', example_creds ''r1'' 5), (''acme'', example_creds ''r2'' 7)] ''anthropic''))
         \<lparr>oauthCredentials := []\<rparr>
     = (settings (example_plugin [(''anthropic'', example_creds ''r1'' 5)] ''anthropic''))\<lparr>oauthCredentials := []\<rparr>
   \<and> map_of (oauthCredentials (settings (example_plugin
          [(''anthropic'', example_creds ''r1'' 5), (''acme'', example_creds ''r2'' 7)] ''anthropic''))) ''anthropic''
     = map_of (oauthCredentials (settings (example_plugin [(''anthropic'', example_creds ''r1'' 5)] ''anthropic'')))
         ''anthropic''
   \<and> generateEnvConfig (example_plugin [(''anthropic'', example_creds ''r1'' 5), (''acme'', example_creds ''r2'' 7)] ''anthropic'')
     = generateEnvConfig (example_plugin [(''anthropic'', example_creds ''r1'' 5)] ''anthropic'')"
  using generateEnvConfig_deterministic
      [of "example_plugin [(''anthropic'', example_creds ''r1'' 5), (''acme'', example_creds ''r2'' 7)] ''anthropic''"
          "(example_plugin [(''anthropic'', example_creds ''r1'' 5), (''acme'', example_creds ''r2'' 7)] ''anthropic'')
             \<lparr>saveCalls := 3, notices := [''Logged out from Acme'']\<rparr>"]
    generateEnvConfig_deterministic
      [of "example_plugin [(''anthropic'', example_creds ''r1'' 5), (''acme'', example_creds ''r2'' 7)] ''anthropic''"
          "example_plugin [(''anthropic'', example_creds ''r1'' 5)] ''anthropic''"]
  by (simp add: example_plugin_def example_settings_def)

text \<open>
  The text generated for the example settings with \<open>anthropic\<close> as the active provider.
\<close>

lemma generateEnvConfig_example:
  "generateEnvConfig (example_plugin [(''anthropic'', example_creds ''r1'' 5)] ''anthropic'') =
     ''# Generated by Neural Composer'' @ nl
     @ ''# You can edit this file manually before restarting.'' @ nl @ nl
     @ ''WORKING_DIR=/vault/rag'' @ nl
     @ ''HOST=0.0.0.0'' @ nl
     @ ''PORT=9621'' @ nl
     @ ''SUMMARY_LANGUAGE=English'' @ nl @ nl
     @ ''# --- Performance Tuning ---'' @ nl
     @ ''MAX_ASYNC=4'' @ nl
     @ ''MAX_PARALLEL_INSERT=1'' @ nl
     @ ''CHUNK_SIZE=1200'' @ nl
     @ ''CHUNK_OVERLAP_SIZE=100'' @ nl @ nl
     @ ''# LLM Configuration'' @ nl
     @ ''LLM_BINDING=openai'' @ nl
     @ ''LLM_MODEL=gpt-4o'' @ nl @ nl
     @ ''# Reranking Disabled'' @ nl
     @ ''RERANK_BINDING=null'' @ nl @ nl
     @ ''# API Keys'' @ nl
     @ ''OPENAI_API_KEY=sk-1'' @ nl @ nl
     @ ''# OAuth Token (auto-managed by Axiom Cortex)'' @ nl
     @ ''OAUTH_PROVIDER=anthropic'' @ nl
     @ ''ANTHROPIC_API_KEY=access-0'' @ nl
     @ ''OAUTH_ACCESS_TOKEN=access-0'' @ nl"
  by code_simp

end
